theory Spec2Isabelle
  imports Main
begin

section \<open>Strings and exceptions\<close>

text \<open>
  A Python \<open>str\<close> is a sequence of Unicode code points and \<open>len\<close> counts them, so a
  string is a list of code points. ASCII literals are written through \<open>ascii\<close>; the
  Chinese message literals of the source are spelt out as code points.
\<close>

type_synonym pystr = "nat list"

definition ascii :: "string \<Rightarrow> pystr" where
  "ascii s = map of_char s"

text \<open>
  The exceptions that reach the code: \<open>TwitterClientError\<close> (twitter_client.py),
  \<open>RuntimeError\<close> (get_twitter_service), \<open>ValueError\<close> (validate_config), the
  validation error of the request and response models, \<open>FileNotFoundError\<close>
  (\<open>os.makedirs\<close>), \<open>UnicodeEncodeError\<close> (binding a string to an SQL statement), and
  any other \<open>Exception\<close> raised by a library call. Each carries the message that
  \<open>str(e)\<close> returns.
\<close>

datatype exn =
    TwitterClientError pystr
  | RuntimeError pystr
  | ValueError pystr
  | ValidationError pystr
  | FileNotFoundError pystr
  | UnicodeEncodeError pystr
  | OtherException pystr

fun str :: "exn \<Rightarrow> pystr" where
  "str (TwitterClientError m) = m"
| "str (RuntimeError m) = m"
| "str (ValueError m) = m"
| "str (ValidationError m) = m"
| "str (FileNotFoundError m) = m"
| "str (UnicodeEncodeError m) = m"
| "str (OtherException m) = m"

fun is_TwitterClientError :: "exn \<Rightarrow> bool" where
  "is_TwitterClientError (TwitterClientError m) = True"
| "is_TwitterClientError e = False"

section \<open>config.py\<close>

record Settings =
  twitter_username :: pystr
  twitter_email :: pystr
  twitter_password :: pystr
  host :: pystr
  port :: int
  database_url :: pystr
  log_level :: pystr
  max_retry_attempts :: int
  retry_delay :: int
  cookies_file_setting :: pystr
  log_file :: pystr

text \<open>The loop \<open>for field in required_fields: if not field: missing_fields.append(field)\<close>.\<close>

fun missing_loop :: "pystr list \<Rightarrow> pystr list \<Rightarrow> pystr list" where
  "missing_loop [] missing_fields = missing_fields"
| "missing_loop (field # rest) missing_fields =
     missing_loop rest (if field = [] then missing_fields @ [field] else missing_fields)"

text \<open>
  \<open>repr\<close> of a list of strings, as the f-string of the error message prints it. Only
  empty strings reach it, so escaping inside the quotes is not modelled.
\<close>

fun join_comma :: "pystr list \<Rightarrow> pystr" where
  "join_comma [] = []"
| "join_comma [x] = x"
| "join_comma (x # y # ys) = x @ ascii '', '' @ join_comma (y # ys)"

definition repr_list :: "pystr list \<Rightarrow> pystr" where
  "repr_list xs = ascii ''['' @ join_comma (map (\<lambda>s. [39] @ s @ [39]) xs) @ ascii '']''"

definition msg_missing_config :: pystr where
  "msg_missing_config = [32570, 23569, 24517, 35201, 37197, 32622, 58, 32]"

text \<open>
  \<open>Settings.validate_config\<close>. The settings object is passed through, so that what
  the method does to it is part of the result.
\<close>

definition validate_config :: "Settings \<Rightarrow> (exn + bool) \<times> Settings" where
  "validate_config self =
     (let required_fields = [twitter_username self, twitter_email self, twitter_password self];
          missing_fields = missing_loop required_fields []
      in if missing_fields \<noteq> []
         then (Inl (ValueError (msg_missing_config @ repr_list missing_fields)), self)
         else (Inr True, self))"

section \<open>database.py\<close>

text \<open>
  A row of table \<open>tweet_logs\<close>. Timestamps are natural numbers (seconds); the value of
  \<open>CURRENT_TIMESTAMP\<close> is an argument \<open>now\<close> of every statement that reads it.
\<close>

record tweet_log =
  row_id :: nat
  row_tweet_id :: "pystr option"
  row_text :: pystr
  row_status :: pystr
  row_retry_count :: int
  row_error_message :: "pystr option"
  row_created_at :: nat
  row_updated_at :: nat

text \<open>
  The table and the \<open>AUTOINCREMENT\<close> counter of SQLite (\<open>sqlite_sequence\<close>): the id of
  a new row is one more than the largest id the table has ever held. The store is an
  in-memory table, and the file behind it is taken to work.
\<close>

record database =
  rows :: "tweet_log list"
  seq :: nat

definition init_database :: database where
  "init_database = \<lparr>rows = [], seq = 0\<rparr>"

definition next_rowid :: "database \<Rightarrow> nat" where
  "next_rowid d = Suc (fold max (map row_id (rows d)) (seq d))"

text \<open>
  A string is bound to a statement as UTF-8. A lone surrogate (a code point from
  \<open>U+D800\<close> to \<open>U+DFFF\<close>, which a JSON escape of four hex digits puts into a \<open>str\<close>) has
  no UTF-8 encoding, and binding a string that holds one raises \<open>UnicodeEncodeError\<close>
  before the statement runs.
\<close>

definition encodable :: "pystr \<Rightarrow> bool" where
  "encodable s = list_all (\<lambda>c. \<not> (55296 \<le> c \<and> c \<le> 57343)) s"

definition encodable_opt :: "pystr option \<Rightarrow> bool" where
  "encodable_opt v = (case v of None \<Rightarrow> True | Some s \<Rightarrow> encodable s)"

definition msg_surrogates :: pystr where
  "msg_surrogates = ascii ''surrogates not allowed''"

text \<open>
  \<open>log_tweet\<close>: the \<open>INSERT\<close> binds \<open>(tweet_id, text, status, error_message)\<close> and returns
  \<open>cursor.lastrowid\<close>; when binding raises, nothing is inserted.
\<close>

definition log_tweet ::
  "nat \<Rightarrow> pystr \<Rightarrow> pystr option \<Rightarrow> pystr \<Rightarrow> pystr option \<Rightarrow> database
     \<Rightarrow> exn + nat \<times> database" where
  "log_tweet now text_arg tweet_id status error_message d =
     (if \<not> (encodable_opt tweet_id \<and> encodable text_arg \<and> encodable status
             \<and> encodable_opt error_message)
      then Inl (UnicodeEncodeError msg_surrogates)
      else
        (let lastrowid = next_rowid d;
             r = \<lparr>row_id = lastrowid, row_tweet_id = tweet_id, row_text = text_arg,
                  row_status = status, row_retry_count = 0, row_error_message = error_message,
                  row_created_at = now, row_updated_at = now\<rparr>
         in Inr (lastrowid, d\<lparr>rows := rows d @ [r], seq := lastrowid\<rparr>)))"

text \<open>One \<open>column = value\<close> item of the \<open>SET\<close> clause that \<open>update_tweet_log\<close> builds.\<close>

datatype assignment =
    SetTweetId pystr
  | SetStatus pystr
  | SetRetryCount int
  | SetErrorMessage pystr
  | SetUpdatedAtNow

fun apply_assignment :: "nat \<Rightarrow> tweet_log \<Rightarrow> assignment \<Rightarrow> tweet_log" where
  "apply_assignment now r (SetTweetId v) = r\<lparr>row_tweet_id := Some v\<rparr>"
| "apply_assignment now r (SetStatus v) = r\<lparr>row_status := v\<rparr>"
| "apply_assignment now r (SetRetryCount v) = r\<lparr>row_retry_count := v\<rparr>"
| "apply_assignment now r (SetErrorMessage v) = r\<lparr>row_error_message := Some v\<rparr>"
| "apply_assignment now r SetUpdatedAtNow = r\<lparr>row_updated_at := now\<rparr>"

text \<open>
  \<open>UPDATE tweet_logs SET ... WHERE id = ?\<close>. The strings that the callers of
  \<open>update_tweet_log\<close> bind are the two status literals and the ids and messages that
  the code and the client library produce, not text of the request; they are taken to
  be encodable.
\<close>

definition execute_update :: "nat \<Rightarrow> assignment list \<Rightarrow> nat \<Rightarrow> database \<Rightarrow> database" where
  "execute_update now updates log_id d =
     d\<lparr>rows := map (\<lambda>r. if row_id r = log_id then foldl (apply_assignment now) r updates else r)
                    (rows d)\<rparr>"

definition update_items ::
  "pystr option \<Rightarrow> pystr option \<Rightarrow> int option \<Rightarrow> pystr option \<Rightarrow> assignment list" where
  "update_items tweet_id status retry_count error_message =
     (case tweet_id of None \<Rightarrow> [] | Some v \<Rightarrow> [SetTweetId v])
     @ (case status of None \<Rightarrow> [] | Some v \<Rightarrow> [SetStatus v])
     @ (case retry_count of None \<Rightarrow> [] | Some v \<Rightarrow> [SetRetryCount v])
     @ (case error_message of None \<Rightarrow> [] | Some v \<Rightarrow> [SetErrorMessage v])
     @ [SetUpdatedAtNow]"

definition update_tweet_log ::
  "nat \<Rightarrow> nat \<Rightarrow> pystr option \<Rightarrow> pystr option \<Rightarrow> int option \<Rightarrow> pystr option
     \<Rightarrow> database \<Rightarrow> database" where
  "update_tweet_log now log_id tweet_id status retry_count error_message d =
     (let updates = update_items tweet_id status retry_count error_message
      in if updates \<noteq> [] then execute_update now updates log_id d else d)"

section \<open>twitter_client.py\<close>

text \<open>
  The adapter talks to the file system and to the third-party client. Every such call
  is an observable event, and its outcome is given by the environment: the outcome of
  a call is a function of the number of events before it, so that an environment
  scripts any sequence of successes and failures. The two library functions that the
  code relies on but that are not part of the repository (the wait strategy of the
  retry decorator and the datetime parser of the response model) are parameters of
  the environment as well.
\<close>

text \<open>
  A tweet object of the client library, as far as the adapter reads it. The two
  counters are read with \<open>getattr(tweet, ..., 0)\<close> and may be absent.
\<close>

record Tweet =
  tw_id :: pystr
  tw_text :: pystr
  tw_created_at :: "pystr option"
  tw_user_id :: pystr
  tw_user_name :: pystr
  tw_favorite_count :: "int option"
  tw_retweet_count :: "int option"

datatype event =
    EvAuthenticate
  | EvPathExists
  | EvLoadCookies
  | EvGetUser
  | EvLogin
  | EvMakedirs
  | EvSaveCookies
  | EvUploadMedia nat
  | EvCreateTweet pystr "pystr list option" "pystr option"
  | EvGetTweet pystr
  | EvSleep nat
  | EvLogInsert nat pystr
  | EvLogUpdate nat "pystr option"
  | EvResponse nat

type_synonym trace = "event list"

record env =
  path_exists_at :: "nat \<Rightarrow> bool"
  load_cookies_at :: "nat \<Rightarrow> exn option"
  get_user_at :: "nat \<Rightarrow> exn + bool"
  login_at :: "nat \<Rightarrow> exn option"
  makedirs_at :: "nat \<Rightarrow> exn option"
  save_cookies_at :: "nat \<Rightarrow> exn option"
  upload_at :: "nat \<Rightarrow> exn + pystr"
  create_tweet_at :: "nat \<Rightarrow> exn + Tweet"
  get_tweet_at :: "nat \<Rightarrow> exn + Tweet"
  now_at :: "nat \<Rightarrow> nat"
  wait_exponential :: "nat \<Rightarrow> nat \<Rightarrow> nat \<Rightarrow> nat \<Rightarrow> nat"
  parse_datetime :: "pystr \<Rightarrow> nat option"

record TwitterService =
  username :: pystr
  email :: pystr
  password :: pystr
  cookies_file :: pystr
  authenticated :: bool

text \<open>\<open>TwitterService.__init__\<close>\<close>

definition new_TwitterService :: "pystr \<Rightarrow> pystr \<Rightarrow> pystr \<Rightarrow> pystr \<Rightarrow> TwitterService" where
  "new_TwitterService u e p c =
     \<lparr>username = u, email = e, password = p, cookies_file = c, authenticated = False\<rparr>"

definition msg_auth_failed :: pystr where
  "msg_auth_failed = [35748, 35777, 22833, 36133, 58, 32]"

definition msg_auth_test_failed :: pystr where
  "msg_auth_test_failed = [35748, 35777, 27979, 35797, 22833, 36133]"

definition msg_tweet_failed :: pystr where
  "msg_tweet_failed = [21457, 24067, 25512, 25991, 22833, 36133, 58, 32]"

definition msg_upload_failed :: pystr where
  "msg_upload_failed = [23186, 20307, 19978, 20256, 22833, 36133, 58, 32]"

text \<open>
  \<open>_test_authentication\<close>: \<open>get_user_by_screen_name\<close> raises, or returns a user whose
  truth value decides.
\<close>

definition test_authentication :: "env \<Rightarrow> trace \<Rightarrow> (exn + unit) \<times> trace" where
  "test_authentication E tr =
     (case get_user_at E (length tr) of
        Inl e \<Rightarrow> (Inl e, tr @ [EvGetUser])
      | Inr user \<Rightarrow>
          if \<not> user then (Inl (TwitterClientError msg_auth_test_failed), tr @ [EvGetUser])
          else (Inr (), tr @ [EvGetUser]))"

text \<open>
  \<open>os.path.dirname\<close>: the path up to and with its last slash, without trailing
  slashes unless it consists of slashes only; empty for a path with no slash.
\<close>

definition dirname :: "pystr \<Rightarrow> pystr" where
  "dirname p =
     (let head = rev (dropWhile (\<lambda>c. c \<noteq> 47) (rev p))
      in if head \<noteq> [] \<and> head \<noteq> replicate (length head) 47
         then rev (dropWhile (\<lambda>c. c = 47) (rev head))
         else head)"

definition msg_no_such_directory :: pystr where
  "msg_no_such_directory = ascii ''[Errno 2] No such file or directory: '' @ [39, 39]"

text \<open>
  \<open>os.makedirs(name, exist_ok=True)\<close>: the empty name raises \<open>FileNotFoundError\<close>;
  for any other name the outcome is the environment's.
\<close>

definition makedirs :: "env \<Rightarrow> pystr \<Rightarrow> nat \<Rightarrow> exn option" where
  "makedirs E name k =
     (if name = [] then Some (FileNotFoundError msg_no_such_directory) else makedirs_at E k)"

text \<open>The full login of \<open>authenticate\<close>: login, makedirs, save_cookies, flag.\<close>

definition full_login ::
  "env \<Rightarrow> TwitterService \<Rightarrow> trace \<Rightarrow> (exn + bool) \<times> TwitterService \<times> trace" where
  "full_login E self tr =
     (case login_at E (length tr) of
        Some e \<Rightarrow> (Inl e, self, tr @ [EvLogin])
      | None \<Rightarrow>
         (case makedirs E (dirname (cookies_file self)) (Suc (length tr)) of
            Some e \<Rightarrow> (Inl e, self, tr @ [EvLogin, EvMakedirs])
          | None \<Rightarrow>
             (case save_cookies_at E (Suc (Suc (length tr))) of
                Some e \<Rightarrow> (Inl e, self, tr @ [EvLogin, EvMakedirs, EvSaveCookies])
              | None \<Rightarrow> (Inr True, self\<lparr>authenticated := True\<rparr>,
                          tr @ [EvLogin, EvMakedirs, EvSaveCookies]))))"

text \<open>The body of the outer \<open>try\<close> of \<open>authenticate\<close>.\<close>

definition authenticate_try ::
  "env \<Rightarrow> TwitterService \<Rightarrow> trace \<Rightarrow> (exn + bool) \<times> TwitterService \<times> trace" where
  "authenticate_try E self tr =
     (if path_exists_at E (length tr) then
        (case load_cookies_at E (Suc (length tr)) of
           Some e \<Rightarrow> (Inl e, self, tr @ [EvPathExists, EvLoadCookies])
         | None \<Rightarrow>
            (case test_authentication E (tr @ [EvPathExists, EvLoadCookies]) of
               (Inr u, tr') \<Rightarrow> (Inr True, self\<lparr>authenticated := True\<rparr>, tr')
             | (Inl e, tr') \<Rightarrow> full_login E self tr'))
      else full_login E self (tr @ [EvPathExists]))"

definition authenticate ::
  "env \<Rightarrow> TwitterService \<Rightarrow> trace \<Rightarrow> (exn + bool) \<times> TwitterService \<times> trace" where
  "authenticate E self tr =
     (case authenticate_try E self (tr @ [EvAuthenticate]) of
        (Inl e, self', tr') \<Rightarrow> (Inl (TwitterClientError (msg_auth_failed @ str e)), self', tr')
      | (Inr b, self', tr') \<Rightarrow> (Inr b, self', tr'))"

subsection \<open>create_tweet\<close>

text \<open>
  \<open>str.lower\<close>. On the ASCII letters it is the map below, and the model leaves every
  other code point as it is: the keywords searched for are ASCII, and the only ASCII
  letters that a non-ASCII code point lower-cases to (\<open>k\<close> from the Kelvin sign, and
  \<open>i\<close> followed by a combining dot from the dotted capital I) cannot complete one of
  them.
\<close>

definition lower :: "pystr \<Rightarrow> pystr" where
  "lower s = map (\<lambda>c. if 65 \<le> c \<and> c \<le> 90 then c + 32 else c) s"

fun startswith :: "pystr \<Rightarrow> pystr \<Rightarrow> bool" where
  "startswith s [] = True"
| "startswith [] (k # ks) = False"
| "startswith (c # s) (k # ks) = (c = k \<and> startswith s ks)"

text \<open>\<open>keyword in s\<close>\<close>

fun contains :: "pystr \<Rightarrow> pystr \<Rightarrow> bool" where
  "contains keyword [] = (keyword = [])"
| "contains keyword (c # s) = (startswith (c # s) keyword \<or> contains keyword s)"

definition auth_keywords :: "pystr list" where
  "auth_keywords = [ascii ''auth'', ascii ''login'', ascii ''unauthorized'', ascii ''forbidden'']"

definition is_auth_error :: "pystr \<Rightarrow> bool" where
  "is_auth_error m = list_ex (\<lambda>keyword. contains keyword (lower m)) auth_keywords"

text \<open>
  \<open>_upload_media\<close>: the items are handled in order; decoding, writing and uploading
  item \<open>i\<close> is one event, and any exception in it is re-raised as a
  \<open>TwitterClientError\<close>.
\<close>

fun upload_media ::
  "env \<Rightarrow> nat \<Rightarrow> pystr list \<Rightarrow> pystr list \<Rightarrow> trace \<Rightarrow> (exn + pystr list) \<times> trace" where
  "upload_media E i [] media_ids tr = (Inr media_ids, tr)"
| "upload_media E i (media_data # rest) media_ids tr =
     (case upload_at E (length tr) of
        Inl e \<Rightarrow> (Inl (TwitterClientError (msg_upload_failed @ str e)), tr @ [EvUploadMedia i])
      | Inr media_id \<Rightarrow>
          upload_media E (Suc i) rest (media_ids @ [media_id]) (tr @ [EvUploadMedia i]))"

record TweetResult =
  res_tweet_id :: pystr
  res_text :: pystr
  res_created_at :: "pystr option"
  res_user_id :: pystr
  res_user_name :: pystr

text \<open>Truth value of an \<open>Optional\<close> string or list: None and the empty value are false.\<close>

definition truthy :: "'a list option \<Rightarrow> bool" where
  "truthy v = (case v of None \<Rightarrow> False | Some xs \<Rightarrow> xs \<noteq> [])"

text \<open>The body of the \<open>try\<close> of \<open>create_tweet\<close>: uploads, then the post.\<close>

definition post_try ::
  "env \<Rightarrow> pystr \<Rightarrow> pystr list option \<Rightarrow> pystr option \<Rightarrow> trace \<Rightarrow> (exn + TweetResult) \<times> trace" where
  "post_try E text_arg media_data reply_to tr =
     (case (case media_data of
              None \<Rightarrow> (Inr [], tr)
            | Some ms \<Rightarrow> if ms \<noteq> [] then upload_media E 0 ms [] tr else (Inr [], tr)) of
        (Inl e, tr1) \<Rightarrow> (Inl e, tr1)
      | (Inr media_ids, tr1) \<Rightarrow>
         (let ev = EvCreateTweet text_arg (if media_ids \<noteq> [] then Some media_ids else None)
                     (if truthy reply_to then reply_to else None)
          in case create_tweet_at E (length tr1) of
               Inl e \<Rightarrow> (Inl e, tr1 @ [ev])
             | Inr tweet \<Rightarrow>
                 (Inr \<lparr>res_tweet_id = tw_id tweet, res_text = tw_text tweet,
                       res_created_at = tw_created_at tweet, res_user_id = tw_user_id tweet,
                       res_user_name = tw_user_name tweet\<rparr>, tr1 @ [ev])))"

text \<open>The \<open>try ... except\<close> of \<open>create_tweet\<close>, lines 97 to 140.\<close>

definition post_step ::
  "env \<Rightarrow> pystr \<Rightarrow> pystr list option \<Rightarrow> pystr option \<Rightarrow> TwitterService \<Rightarrow> trace
     \<Rightarrow> (exn + TweetResult) \<times> TwitterService \<times> trace" where
  "post_step E text_arg media_data reply_to self tr =
     (case post_try E text_arg media_data reply_to tr of
        (Inr result, tr') \<Rightarrow> (Inr result, self, tr')
      | (Inl e, tr') \<Rightarrow>
          (Inl (TwitterClientError (msg_tweet_failed @ str e)),
           (if is_auth_error (str e) then self\<lparr>authenticated := False\<rparr> else self), tr'))"

text \<open>The function body that the retry decorator wraps: one attempt.\<close>

definition create_tweet_attempt ::
  "env \<Rightarrow> pystr \<Rightarrow> pystr list option \<Rightarrow> pystr option \<Rightarrow> TwitterService \<Rightarrow> trace
     \<Rightarrow> (exn + TweetResult) \<times> TwitterService \<times> trace" where
  "create_tweet_attempt E text_arg media_data reply_to self tr =
     (if \<not> authenticated self then
        (case authenticate E self tr of
           (Inl e, self', tr') \<Rightarrow> (Inl e, self', tr')
         | (Inr b, self', tr') \<Rightarrow> post_step E text_arg media_data reply_to self' tr')
      else post_step E text_arg media_data reply_to self tr)"

text \<open>
  The decorator \<open>retry(stop=stop_after_attempt(n), wait=w, reraise=True)\<close>: the wrapped
  function is called again after any exception, with a sleep of \<open>w attempt\<close> seconds in
  between, until it returns or attempt \<open>n\<close> has failed; then the last exception is
  raised.
\<close>

function retry ::
  "nat \<Rightarrow> (nat \<Rightarrow> nat) \<Rightarrow> (TwitterService \<Rightarrow> trace \<Rightarrow> (exn + 'a) \<times> TwitterService \<times> trace)
     \<Rightarrow> nat \<Rightarrow> TwitterService \<Rightarrow> trace \<Rightarrow> (exn + 'a) \<times> TwitterService \<times> trace" where
  "retry stop wait f attempt_number self tr =
     (case f self tr of
        (Inr r, self', tr') \<Rightarrow> (Inr r, self', tr')
      | (Inl e, self', tr') \<Rightarrow>
          if attempt_number \<ge> stop then (Inl e, self', tr')
          else retry stop wait f (Suc attempt_number) self' (tr' @ [EvSleep (wait attempt_number)]))"
  by pat_completeness auto
termination
  by (relation "measure (\<lambda>(stop, wait, f, attempt_number, self, tr). stop - attempt_number)") auto

text \<open>
  \<open>create_tweet\<close> as callers see it, under
  \<open>@retry(stop=stop_after_attempt(3), wait=wait_exponential(multiplier=1, min=2, max=10), reraise=True)\<close>.
\<close>

definition create_tweet ::
  "env \<Rightarrow> pystr \<Rightarrow> pystr list option \<Rightarrow> pystr option \<Rightarrow> TwitterService \<Rightarrow> trace
     \<Rightarrow> (exn + TweetResult) \<times> TwitterService \<times> trace" where
  "create_tweet E text_arg media_data reply_to self tr =
     retry 3 (wait_exponential E 1 2 10) (create_tweet_attempt E text_arg media_data reply_to)
       1 self tr"

subsection \<open>get_tweet_info, health_check, get_twitter_service\<close>

record TweetInfo =
  info_id :: pystr
  info_text :: pystr
  info_created_at :: "pystr option"
  info_user_name :: pystr
  info_like_count :: int
  info_retweet_count :: int

definition get_tweet_info ::
  "env \<Rightarrow> pystr \<Rightarrow> TwitterService \<Rightarrow> trace \<Rightarrow> (exn + TweetInfo option) \<times> TwitterService \<times> trace" where
  "get_tweet_info E tweet_id self tr =
     (case (if \<not> authenticated self then authenticate E self tr else (Inr True, self, tr)) of
        (Inl e, self', tr') \<Rightarrow> (Inl e, self', tr')
      | (Inr b, self', tr') \<Rightarrow>
         (case get_tweet_at E (length tr') of
            Inl e \<Rightarrow> (Inr None, self', tr' @ [EvGetTweet tweet_id])
          | Inr tweet \<Rightarrow>
              (Inr (Some \<lparr>info_id = tw_id tweet, info_text = tw_text tweet,
                          info_created_at = tw_created_at tweet,
                          info_user_name = tw_user_name tweet,
                          info_like_count =
                            (case tw_favorite_count tweet of None \<Rightarrow> 0 | Some c \<Rightarrow> c),
                          info_retweet_count =
                            (case tw_retweet_count tweet of None \<Rightarrow> 0 | Some c \<Rightarrow> c)\<rparr>),
               self', tr' @ [EvGetTweet tweet_id])))"

record StatusDict =
  sd_status :: pystr
  sd_message :: pystr

definition msg_api_ok :: pystr where
  "msg_api_ok = [84, 119, 105, 116, 116, 101, 114, 32, 65, 80, 73, 36830, 25509, 27491, 24120]"

definition msg_api_broken :: pystr where
  "msg_api_broken =
     [84, 119, 105, 116, 116, 101, 114, 32, 65, 80, 73, 36830, 25509, 24322, 24120, 58, 32]"

text \<open>The body of the \<open>try\<close> of \<open>TwitterService.health_check\<close>.\<close>

definition health_check_try ::
  "env \<Rightarrow> TwitterService \<Rightarrow> trace \<Rightarrow> (exn + StatusDict) \<times> TwitterService \<times> trace" where
  "health_check_try E self tr =
     (case (if \<not> authenticated self then authenticate E self tr else (Inr True, self, tr)) of
        (Inl e, self', tr') \<Rightarrow> (Inl e, self', tr')
      | (Inr b, self', tr') \<Rightarrow>
         (case test_authentication E tr' of
            (Inl e, tr'') \<Rightarrow> (Inl e, self', tr'')
          | (Inr u, tr'') \<Rightarrow>
              (Inr \<lparr>sd_status = ascii ''connected'', sd_message = msg_api_ok\<rparr>, self', tr'')))"

definition health_check ::
  "env \<Rightarrow> TwitterService \<Rightarrow> trace \<Rightarrow> (exn + StatusDict) \<times> TwitterService \<times> trace" where
  "health_check E self tr =
     (case health_check_try E self tr of
        (Inl e, self', tr') \<Rightarrow>
          (Inr \<lparr>sd_status = ascii ''disconnected'', sd_message = msg_api_broken @ str e\<rparr>,
           self', tr')
      | (Inr d, self', tr') \<Rightarrow> (Inr d, self', tr'))"

definition msg_not_initialised :: pystr where
  "msg_not_initialised =
     [84, 119, 105, 116, 116, 101, 114, 26381, 21153, 26410, 21021, 22987, 21270]"

text \<open>
  \<open>get_twitter_service\<close> reads the module variable \<open>twitter_service\<close> of
  twitter_client.py, which is its argument here.
\<close>

definition get_twitter_service :: "TwitterService option \<Rightarrow> exn + TwitterService" where
  "get_twitter_service twitter_service =
     (case twitter_service of
        None \<Rightarrow> Inl (RuntimeError msg_not_initialised)
      | Some service \<Rightarrow> Inr service)"

section \<open>models.py and utils.py\<close>

text \<open>
  A JSON value as the framework hands it to the model. A number with a fraction or an
  exponent is a Python float; it is given by the string that \<open>str\<close> prints for it.
\<close>

datatype json =
    JNull
  | JBool bool
  | JInt int
  | JFloat pystr
  | JString pystr
  | JArray "json list"
  | JObject "(pystr \<times> json) list"

text \<open>
  The JSON object of a request to \<open>POST /api/tweet\<close>, as far as \<open>TweetRequest\<close> reads
  it: the values of the three keys, None for a key that is missing.
\<close>

record Body =
  body_text :: "json option"
  body_media :: "json option"
  body_reply_to :: "json option"

record TweetRequest =
  req_text :: pystr
  req_media :: "pystr list option"
  req_reply_to :: "pystr option"

text \<open>\<open>str\<close> of an \<open>int\<close>: its decimal digits, with a minus sign when negative.\<close>

function digits :: "nat \<Rightarrow> pystr" where
  "digits n = (if n < 10 then [48 + n] else digits (n div 10) @ [48 + n mod 10])"
  by pat_completeness auto
termination
  by (relation "measure (\<lambda>n. n)") auto

declare digits.simps [simp del]

definition str_int :: "int \<Rightarrow> pystr" where
  "str_int i = (if i < 0 then 45 # digits (nat (- i)) else digits (nat i))"

text \<open>
  The validator of a \<open>str\<close> field in the model library (pydantic 1, which the import
  of \<open>BaseSettings\<close> in config.py pins): a string is taken as it is, a number or a
  boolean is converted with \<open>str\<close>, anything else is an error.
\<close>

fun str_validator :: "json \<Rightarrow> exn + pystr" where
  "str_validator (JString s) = Inr s"
| "str_validator (JBool b) = Inr (if b then ascii ''True'' else ascii ''False'')"
| "str_validator (JInt i) = Inr (str_int i)"
| "str_validator (JFloat s) = Inr s"
| "str_validator JNull = Inl (ValidationError (ascii ''none is not an allowed value''))"
| "str_validator (JArray xs) = Inl (ValidationError (ascii ''str type expected''))"
| "str_validator (JObject kvs) = Inl (ValidationError (ascii ''str type expected''))"

text \<open>\<open>reply_to: Optional[str]\<close>: a missing key and \<open>null\<close> give None.\<close>

fun optional_str :: "json option \<Rightarrow> exn + pystr option" where
  "optional_str None = Inr None"
| "optional_str (Some JNull) = Inr None"
| "optional_str (Some v) = (case str_validator v of Inl e \<Rightarrow> Inl e | Inr s \<Rightarrow> Inr (Some s))"

text \<open>\<open>media: Optional[List[str]]\<close>: an array whose items pass the \<open>str\<close> validator.\<close>

fun list_str :: "json list \<Rightarrow> exn + pystr list" where
  "list_str [] = Inr []"
| "list_str (v # vs) =
     (case str_validator v of
        Inl e \<Rightarrow> Inl e
      | Inr s \<Rightarrow> (case list_str vs of Inl e \<Rightarrow> Inl e | Inr ss \<Rightarrow> Inr (s # ss)))"

fun optional_list_str :: "json option \<Rightarrow> exn + pystr list option" where
  "optional_list_str None = Inr None"
| "optional_list_str (Some JNull) = Inr None"
| "optional_list_str (Some (JArray vs)) =
     (case list_str vs of Inl e \<Rightarrow> Inl e | Inr ss \<Rightarrow> Inr (Some ss))"
| "optional_list_str (Some v) = Inl (ValidationError (ascii ''value is not a valid list''))"

text \<open>
  \<open>text: str = Field(..., min_length=1, max_length=280)\<close>: required, converted by the
  \<open>str\<close> validator, then measured.
\<close>

definition text_field :: "json option \<Rightarrow> exn + pystr" where
  "text_field v =
     (case v of
        None \<Rightarrow> Inl (ValidationError (ascii ''field required''))
      | Some j \<Rightarrow>
         (case str_validator j of
            Inl e \<Rightarrow> Inl e
          | Inr t \<Rightarrow>
              if length t < 1
              then Inl (ValidationError (ascii ''ensure this value has at least 1 characters''))
              else if length t > 280
              then Inl (ValidationError (ascii ''ensure this value has at most 280 characters''))
              else Inr t))"

text \<open>The validation of \<open>TweetRequest\<close>: every field must pass.\<close>

definition parse_TweetRequest :: "Body \<Rightarrow> exn + TweetRequest" where
  "parse_TweetRequest b =
     (case text_field (body_text b) of
        Inl e \<Rightarrow> Inl e
      | Inr t \<Rightarrow>
         (case optional_list_str (body_media b) of
            Inl e \<Rightarrow> Inl e
          | Inr media \<Rightarrow>
             (case optional_str (body_reply_to b) of
                Inl e \<Rightarrow> Inl e
              | Inr reply_to \<Rightarrow>
                  Inr \<lparr>req_text = t, req_media = media, req_reply_to = reply_to\<rparr>)))"

record TweetResponse =
  resp_success :: bool
  resp_tweet_id :: "pystr option"
  resp_message :: pystr
  resp_created_at :: "nat option"

text \<open>
  The constructor of \<open>TweetResponse\<close>. Field \<open>created_at\<close> is declared
  \<open>Optional[datetime]\<close> and is given whatever the client library put into the tweet,
  so the model validates it: a string that is not a datetime raises.
\<close>

definition new_TweetResponse ::
  "env \<Rightarrow> bool \<Rightarrow> pystr option \<Rightarrow> pystr \<Rightarrow> pystr option \<Rightarrow> exn + TweetResponse" where
  "new_TweetResponse E success tweet_id message created_at =
     (case created_at of
        None \<Rightarrow> Inr \<lparr>resp_success = success, resp_tweet_id = tweet_id, resp_message = message,
                     resp_created_at = None\<rparr>
      | Some s \<Rightarrow>
         (case parse_datetime E s of
            None \<Rightarrow> Inl (ValidationError (ascii ''invalid datetime format''))
          | Some t \<Rightarrow> Inr \<lparr>resp_success = success, resp_tweet_id = tweet_id,
                            resp_message = message, resp_created_at = Some t\<rparr>))"

record HealthResponse =
  hr_status :: pystr
  hr_timestamp :: nat
  hr_twitter_status :: pystr

record ErrorBody =
  err_success :: bool
  err_error_code :: pystr
  err_message :: pystr
  err_details :: "pystr option"
  err_timestamp :: nat

definition format_error_response :: "nat \<Rightarrow> pystr \<Rightarrow> pystr \<Rightarrow> pystr option \<Rightarrow> ErrorBody" where
  "format_error_response now error_code message details =
     \<lparr>err_success = False, err_error_code = error_code, err_message = message,
      err_details = details, err_timestamp = now\<rparr>"

section \<open>main.py\<close>

text \<open>
  The state the endpoints work on. There are two module variables named
  \<open>twitter_service\<close>: the one of twitter_client.py, which \<open>get_twitter_service\<close> reads
  (\<open>app_service\<close>), and the one that \<open>from .twitter_client import ... twitter_service\<close>
  creates in main.py (\<open>app_main_service\<close>). Then there are the log store and the events
  so far. The store operations of the endpoints are events too; they read
  \<open>CURRENT_TIMESTAMP\<close> from the environment.
\<close>

record app =
  app_service :: "TwitterService option"
  app_main_service :: "TwitterService option"
  app_db :: database
  app_trace :: trace

text \<open>The state after the modules are imported: both variables are None.\<close>

definition initial_app :: app where
  "initial_app =
     \<lparr>app_service = None, app_main_service = None, app_db = init_database, app_trace = []\<rparr>"

text \<open>
  \<open>startup_event\<close>: validate the settings, create the tables if they are missing,
  build the service, warm it up. \<open>global twitter_service\<close> in main.py names the
  variable of main.py, so that one is assigned; a failing warm-up is logged only.
\<close>

definition startup_event :: "env \<Rightarrow> Settings \<Rightarrow> app \<Rightarrow> (exn + unit) \<times> app" where
  "startup_event E settings a =
     (case fst (validate_config settings) of
        Inl e \<Rightarrow> (Inl e, a)
      | Inr ok \<Rightarrow>
         (case authenticate E
                 (new_TwitterService (twitter_username settings) (twitter_email settings)
                    (twitter_password settings) (cookies_file_setting settings))
                 (app_trace a) of
            (r, service, tr') \<Rightarrow>
              (Inr (), a\<lparr>app_main_service := Some service, app_trace := tr'\<rparr>)))"

definition db_log_tweet :: "env \<Rightarrow> pystr \<Rightarrow> pystr \<Rightarrow> app \<Rightarrow> (exn + nat) \<times> app" where
  "db_log_tweet E text_arg status a =
     (case log_tweet (now_at E (length (app_trace a))) text_arg None status None (app_db a) of
        Inl e \<Rightarrow> (Inl e, a)
      | Inr (log_id, d) \<Rightarrow>
          (Inr log_id, a\<lparr>app_db := d, app_trace := app_trace a @ [EvLogInsert log_id status]\<rparr>))"

definition db_update_tweet_log ::
  "env \<Rightarrow> nat \<Rightarrow> pystr option \<Rightarrow> pystr option \<Rightarrow> pystr option \<Rightarrow> app \<Rightarrow> app" where
  "db_update_tweet_log E log_id tweet_id status error_message a =
     a\<lparr>app_db := update_tweet_log (now_at E (length (app_trace a))) log_id tweet_id status None
                   error_message (app_db a),
       app_trace := app_trace a @ [EvLogUpdate log_id status]\<rparr>"

text \<open>
  The adapter call of \<open>process_tweet_async\<close>, lines 145 to 153: fetch the service,
  call its \<open>create_tweet\<close>.
\<close>

definition adapter_call :: "env \<Rightarrow> TweetRequest \<Rightarrow> app \<Rightarrow> (exn + TweetResult) \<times> app" where
  "adapter_call E tweet_data a =
     (case get_twitter_service (app_service a) of
        Inl e \<Rightarrow> (Inl e, a)
      | Inr service \<Rightarrow>
         (case create_tweet E (req_text tweet_data) (req_media tweet_data)
                 (req_reply_to tweet_data) service (app_trace a) of
            (r, service', tr') \<Rightarrow> (r, a\<lparr>app_service := Some service', app_trace := tr'\<rparr>)))"

text \<open>The body of the \<open>try\<close> of \<open>process_tweet_async\<close>.\<close>

definition process_tweet_try :: "env \<Rightarrow> TweetRequest \<Rightarrow> nat \<Rightarrow> app \<Rightarrow> (exn + TweetResult) \<times> app" where
  "process_tweet_try E tweet_data log_id a =
     (case adapter_call E tweet_data a of
        (Inl e, a') \<Rightarrow> (Inl e, a')
      | (Inr result, a') \<Rightarrow>
          (Inr result,
           db_update_tweet_log E log_id (Some (res_tweet_id result)) (Some (ascii ''success''))
             None a'))"

definition process_tweet_async :: "env \<Rightarrow> TweetRequest \<Rightarrow> nat \<Rightarrow> app \<Rightarrow> (exn + TweetResult) \<times> app" where
  "process_tweet_async E tweet_data log_id a =
     (case process_tweet_try E tweet_data log_id a of
        (Inr result, a') \<Rightarrow> (Inr result, a')
      | (Inl e, a') \<Rightarrow>
          (Inl e, db_update_tweet_log E log_id None (Some (ascii ''failed'')) (Some (str e)) a'))"

text \<open>What a handler raises: an \<open>HTTPException\<close>, or any other exception.\<close>

datatype raised = HTTPException nat ErrorBody | Uncaught exn

definition msg_publish_ok :: pystr where
  "msg_publish_ok = [25512, 25991, 21457, 24067, 25104, 21151]"

definition msg_publish_failed :: pystr where
  "msg_publish_failed = [25512, 25991, 21457, 24067, 22833, 36133]"

definition msg_internal_error :: pystr where
  "msg_internal_error = [26381, 21153, 22120, 20869, 37096, 38169, 35823]"

definition msg_server_error :: pystr where
  "msg_server_error = [20869, 37096, 26381, 21153, 22120, 38169, 35823]"

definition msg_unexpected_error :: pystr where
  "msg_unexpected_error = [24847, 22806, 38169, 35823]"

text \<open>The two \<open>except\<close> clauses of the inner \<open>try\<close> of the endpoint, lines 212 to 244.\<close>

definition publish_failed :: "env \<Rightarrow> nat \<Rightarrow> exn \<Rightarrow> app \<Rightarrow> (raised + TweetResponse) \<times> app" where
  "publish_failed E log_id e a =
     (let a' = db_update_tweet_log E log_id None (Some (ascii ''failed'')) (Some (str e)) a;
          now = now_at E (length (app_trace a'))
      in if is_TwitterClientError e
         then (Inl (HTTPException 400
                 (format_error_response now (ascii ''TWITTER_ERROR'') msg_publish_failed
                    (Some (str e)))), a')
         else (Inl (HTTPException 500
                 (format_error_response now (ascii ''INTERNAL_ERROR'') msg_internal_error
                    (Some (str e)))), a'))"

text \<open>The body of the outer \<open>try\<close> of the endpoint \<open>create_tweet\<close> of main.py.\<close>

definition api_create_tweet_try ::
  "env \<Rightarrow> TweetRequest \<Rightarrow> app \<Rightarrow> (raised + TweetResponse) \<times> app" where
  "api_create_tweet_try E tweet_data a =
     (case db_log_tweet E (req_text tweet_data) (ascii ''processing'') a of
        (Inl e, a1) \<Rightarrow> (Inl (Uncaught e), a1)
      | (Inr log_id, a1) \<Rightarrow>
         (case process_tweet_async E tweet_data log_id a1 of
            (Inl e, a2) \<Rightarrow> publish_failed E log_id e a2
          | (Inr result, a2) \<Rightarrow>
             (case new_TweetResponse E True (Some (res_tweet_id result)) msg_publish_ok
                     (res_created_at result) of
                Inl e \<Rightarrow> publish_failed E log_id e a2
              | Inr response \<Rightarrow> (Inr response, a2))))"

text \<open>The endpoint \<open>create_tweet\<close> of main.py.\<close>

definition api_create_tweet ::
  "env \<Rightarrow> TweetRequest \<Rightarrow> app \<Rightarrow> (raised + TweetResponse) \<times> app" where
  "api_create_tweet E tweet_data a =
     (case api_create_tweet_try E tweet_data a of
        (Inl (HTTPException code body), a') \<Rightarrow> (Inl (HTTPException code body), a')
      | (Inl (Uncaught e), a') \<Rightarrow>
          (Inl (HTTPException 500
             (format_error_response (now_at E (length (app_trace a'))) (ascii ''UNEXPECTED_ERROR'')
                msg_unexpected_error (Some (str e)))), a')
      | (Inr response, a') \<Rightarrow> (Inr response, a'))"

text \<open>
  The route \<open>POST /api/tweet\<close>: the framework validates the body against
  \<open>TweetRequest\<close> and answers 422 without calling the endpoint when that fails;
  otherwise it calls the endpoint and turns its result into the response.
\<close>

datatype response =
    Ok200 TweetResponse
  | Unprocessable422 exn
  | ErrorResponse nat ErrorBody

fun status_code :: "response \<Rightarrow> nat" where
  "status_code (Ok200 r) = 200"
| "status_code (Unprocessable422 e) = 422"
| "status_code (ErrorResponse code body) = code"

definition respond :: "response \<Rightarrow> app \<Rightarrow> response \<times> app" where
  "respond r a = (r, a\<lparr>app_trace := app_trace a @ [EvResponse (status_code r)]\<rparr>)"

definition post_api_tweet :: "env \<Rightarrow> Body \<Rightarrow> app \<Rightarrow> response \<times> app" where
  "post_api_tweet E b a =
     (case parse_TweetRequest b of
        Inl e \<Rightarrow> respond (Unprocessable422 e) a
      | Inr tweet_data \<Rightarrow>
         (case api_create_tweet E tweet_data a of
            (Inr r, a') \<Rightarrow> respond (Ok200 r) a'
          | (Inl (HTTPException code body), a') \<Rightarrow> respond (ErrorResponse code body) a'
          | (Inl (Uncaught e), a') \<Rightarrow>
              respond (ErrorResponse 500
                (format_error_response (now_at E (length (app_trace a'))) (ascii ''INTERNAL_ERROR'')
                   msg_server_error (Some (str e)))) a'))"

text \<open>The endpoint \<open>health_check\<close> of main.py (route \<open>GET /health\<close>).\<close>

definition api_health_check_try :: "env \<Rightarrow> app \<Rightarrow> (exn + HealthResponse) \<times> app" where
  "api_health_check_try E a =
     (case get_twitter_service (app_service a) of
        Inl e \<Rightarrow> (Inl e, a)
      | Inr service \<Rightarrow>
         (case health_check E service (app_trace a) of
            (Inl e, service', tr') \<Rightarrow>
              (Inl e, a\<lparr>app_service := Some service', app_trace := tr'\<rparr>)
          | (Inr twitter_status, service', tr') \<Rightarrow>
              (Inr \<lparr>hr_status = ascii ''healthy'', hr_timestamp = now_at E (length tr'),
                    hr_twitter_status = sd_status twitter_status\<rparr>,
               a\<lparr>app_service := Some service', app_trace := tr'\<rparr>)))"

definition api_health_check :: "env \<Rightarrow> app \<Rightarrow> (exn + HealthResponse) \<times> app" where
  "api_health_check E a =
     (case api_health_check_try E a of
        (Inl e, a') \<Rightarrow>
          (Inr \<lparr>hr_status = ascii ''unhealthy'', hr_timestamp = now_at E (length (app_trace a')),
                hr_twitter_status = ascii ''error''\<rparr>, a')
      | (Inr r, a') \<Rightarrow> (Inr r, a'))"

section \<open>Trace predicates and example inputs\<close>

text \<open>The events of the adapter, as opposed to those of the log store and the response.\<close>

fun is_adapter_event :: "event \<Rightarrow> bool" where
  "is_adapter_event (EvLogInsert i s) = False"
| "is_adapter_event (EvLogUpdate i s) = False"
| "is_adapter_event (EvResponse c) = False"
| "is_adapter_event e = True"

text \<open>The calls of the client's \<open>create_tweet\<close>: the underlying tweet posts.\<close>

fun is_post :: "event \<Rightarrow> bool" where
  "is_post (EvCreateTweet t m r) = True"
| "is_post e = False"

definition posts :: "trace \<Rightarrow> nat" where
  "posts tr = length (filter is_post tr)"

text \<open>A step extends the trace by adapter events, at most \<open>k\<close> of them posts.\<close>

definition extends :: "nat \<Rightarrow> trace \<Rightarrow> trace \<Rightarrow> bool" where
  "extends k tr tr' = (\<exists>evs. tr' = tr @ evs \<and> list_all is_adapter_event evs \<and> posts evs \<le> k)"

definition example_settings :: Settings where
  "example_settings =
     \<lparr>twitter_username = ascii ''bot'', twitter_email = ascii ''bot@example.com'',
      twitter_password = ascii ''secret'', host = ascii ''0.0.0.0'', port = 8000,
      database_url = ascii ''sqlite+aiosqlite:///data/app.db'', log_level = ascii ''INFO'',
      max_retry_attempts = 3, retry_delay = 2,
      cookies_file_setting = ascii ''data/cookies.json'', log_file = ascii ''data/app.log''\<rparr>"

definition example_rows :: "tweet_log list" where
  "example_rows =
     [\<lparr>row_id = 1, row_tweet_id = None, row_text = ascii ''first'', row_status = ascii ''processing'',
       row_retry_count = 0, row_error_message = None, row_created_at = 10, row_updated_at = 10\<rparr>,
      \<lparr>row_id = 2, row_tweet_id = None, row_text = ascii ''second'', row_status = ascii ''processing'',
       row_retry_count = 0, row_error_message = None, row_created_at = 20, row_updated_at = 20\<rparr>]"

definition example_tweet :: Tweet where
  "example_tweet =
     \<lparr>tw_id = ascii ''123456789'', tw_text = ascii ''hello'',
      tw_created_at = Some (ascii ''2024-01-15T10:30:00Z''),
      tw_user_id = ascii ''user123'', tw_user_name = ascii ''Test User'',
      tw_favorite_count = None, tw_retweet_count = None\<rparr>"

text \<open>An environment in which every call succeeds.\<close>

definition env_ok :: env where
  "env_ok =
     \<lparr>path_exists_at = (\<lambda>n. True), load_cookies_at = (\<lambda>n. None),
      get_user_at = (\<lambda>n. Inr True), login_at = (\<lambda>n. None), makedirs_at = (\<lambda>n. None),
      save_cookies_at = (\<lambda>n. None), upload_at = (\<lambda>n. Inr (ascii ''media123'')),
      create_tweet_at = (\<lambda>n. Inr example_tweet), get_tweet_at = (\<lambda>n. Inr example_tweet),
      now_at = (\<lambda>n. n),
      wait_exponential = (\<lambda>multiplier lo hi k. max lo (min (multiplier * 2 ^ (k - 1)) hi)),
      parse_datetime = (\<lambda>s. if s = ascii ''2024-01-15T10:30:00Z'' then Some 1705314600 else None)\<rparr>"

definition example_service :: TwitterService where
  "example_service =
     new_TwitterService (ascii ''test_user'') (ascii ''test@example.com'')
       (ascii ''test_password'') (ascii ''data/cookies.json'')"

definition example_app :: app where
  "example_app =
     \<lparr>app_service = Some (example_service\<lparr>authenticated := True\<rparr>),
      app_main_service = None, app_db = init_database, app_trace = []\<rparr>"

text \<open>The application after start-up, with valid settings and valid saved cookies.\<close>

definition started_app :: app where
  "started_app = snd (startup_event env_ok example_settings initial_app)"

text \<open>A body whose text is one character, the lone surrogate \<open>U+D800\<close>.\<close>

definition surrogate_body :: Body where
  "surrogate_body =
     \<lparr>body_text = Some (JString [55296]), body_media = None, body_reply_to = None\<rparr>"

text \<open>The body \<open>{"text": 123}\<close>.\<close>

definition number_body :: Body where
  "number_body = \<lparr>body_text = Some (JInt 123), body_media = None, body_reply_to = None\<rparr>"



definition env_post_fails :: env where
  "env_post_fails =
     env_ok\<lparr>create_tweet_at := (\<lambda>n. Inl (OtherException (ascii ''rate limit exceeded'')))\<rparr>"

definition env_unauthorized :: env where
  "env_unauthorized =
     env_ok\<lparr>create_tweet_at := (\<lambda>n. Inl (OtherException (ascii ''Unauthorized'')))\<rparr>"

text \<open>
  Every post is answered with \<open>Unauthorized\<close>, there is no cookies file, and every
  login times out.
\<close>

definition env_auth_lost :: env where
  "env_auth_lost =
     env_ok\<lparr>create_tweet_at := (\<lambda>n. Inl (OtherException (ascii ''Unauthorized''))),
            path_exists_at := (\<lambda>n. False),
            login_at := (\<lambda>n. Some (OtherException (ascii ''timeout'')))\<rparr>"

text \<open>The row of the log store with a given id.\<close>

definition lookup_row :: "database \<Rightarrow> nat \<Rightarrow> tweet_log option" where
  "lookup_row d i = find (\<lambda>r. row_id r = i) (rows d)"

definition example_body :: Body where
  "example_body =
     \<lparr>body_text = Some (JString (ascii ''hello'')), body_media = None, body_reply_to = None\<rparr>"

definition example_request :: TweetRequest where
  "example_request = \<lparr>req_text = ascii ''hello'', req_media = None, req_reply_to = None\<rparr>"

section \<open>Configuration validation\<close>

lemma missing_loop_filter:
  "missing_loop fs acc = acc @ filter (\<lambda>f. f = []) fs"
  by (induction fs arbitrary: acc) auto

text \<open>
  C7: \<open>validate_config\<close> raises a \<open>ValueError\<close> exactly when one of the three required
  credentials is empty, returns \<open>True\<close> otherwise, and hands the settings back unchanged
  in both cases.
\<close>

theorem validate_config_iff:
  "((\<exists>m. fst (validate_config s) = Inl (ValueError m))
      \<longleftrightarrow> (twitter_username s = [] \<or> twitter_email s = [] \<or> twitter_password s = []))
   \<and> (fst (validate_config s) = Inr True
      \<longleftrightarrow> \<not> (twitter_username s = [] \<or> twitter_email s = [] \<or> twitter_password s = []))
   \<and> snd (validate_config s) = s"
  by (auto simp: validate_config_def missing_loop_filter Let_def)

theorem validate_config_iff_witness:
  "(\<exists>m. fst (validate_config (example_settings\<lparr>twitter_password := []\<rparr>)) = Inl (ValueError m))
   \<and> fst (validate_config example_settings) = Inr True
   \<and> snd (validate_config (example_settings\<lparr>twitter_password := []\<rparr>))
       = example_settings\<lparr>twitter_password := []\<rparr>"
  using validate_config_iff [of "example_settings\<lparr>twitter_password := []\<rparr>"]
    validate_config_iff [of example_settings]
  by (simp add: example_settings_def ascii_def)

section \<open>The log store\<close>

lemma update_items_row:
  "foldl (apply_assignment now) r (update_items tweet_id status retry_count error_message) =
     r\<lparr>row_tweet_id := (case tweet_id of None \<Rightarrow> row_tweet_id r | Some v \<Rightarrow> Some v),
       row_status := (case status of None \<Rightarrow> row_status r | Some v \<Rightarrow> v),
       row_retry_count := (case retry_count of None \<Rightarrow> row_retry_count r | Some v \<Rightarrow> v),
       row_error_message := (case error_message of None \<Rightarrow> row_error_message r | Some v \<Rightarrow> Some v),
       row_updated_at := now\<rparr>"
  by (simp add: update_items_def split: option.splits)

lemma update_tweet_log_rows:
  "rows (update_tweet_log now log_id tweet_id status retry_count error_message d) =
     map (\<lambda>r. if row_id r = log_id
               then foldl (apply_assignment now) r
                      (update_items tweet_id status retry_count error_message)
               else r) (rows d)"
  by (simp add: update_tweet_log_def execute_update_def Let_def update_items_def)

lemma update_tweet_log_seq:
  "seq (update_tweet_log now log_id tweet_id status retry_count error_message d) = seq d"
  by (simp add: update_tweet_log_def execute_update_def Let_def)

text \<open>
  C10: \<open>update_tweet_log\<close> on a row id changes, in the rows with that id, only the
  fields passed as non-None arguments and \<open>updated_at\<close>; the id, the text, \<open>created_at\<close>
  and every field not supplied keep their values, every row with another id is
  unchanged, and no row is added or removed.
\<close>

theorem update_tweet_log_frame:
  "seq (update_tweet_log now log_id tweet_id status retry_count error_message d) = seq d
   \<and> length (rows (update_tweet_log now log_id tweet_id status retry_count error_message d))
       = length (rows d)
   \<and> (\<forall>i < length (rows d).
        let r = rows d ! i;
            r' = rows (update_tweet_log now log_id tweet_id status retry_count error_message d) ! i
        in (row_id r \<noteq> log_id \<longrightarrow> r' = r)
         \<and> (row_id r = log_id \<longrightarrow>
              row_id r' = row_id r \<and> row_text r' = row_text r
              \<and> row_created_at r' = row_created_at r
              \<and> row_tweet_id r' = (case tweet_id of None \<Rightarrow> row_tweet_id r | Some v \<Rightarrow> Some v)
              \<and> row_status r' = (case status of None \<Rightarrow> row_status r | Some v \<Rightarrow> v)
              \<and> row_retry_count r' = (case retry_count of None \<Rightarrow> row_retry_count r | Some v \<Rightarrow> v)
              \<and> row_error_message r'
                  = (case error_message of None \<Rightarrow> row_error_message r | Some v \<Rightarrow> Some v)
              \<and> row_updated_at r' = now))"
  by (simp add: update_tweet_log_rows update_tweet_log_seq update_items_row Let_def)

theorem update_tweet_log_frame_witness:
  "rows (update_tweet_log 30 2 None (Some (ascii ''failed'')) None (Some (ascii ''boom''))
           \<lparr>rows = example_rows, seq = 2\<rparr>) ! 0 = example_rows ! 0
   \<and> row_text (rows (update_tweet_log 30 2 None (Some (ascii ''failed'')) None (Some (ascii ''boom''))
           \<lparr>rows = example_rows, seq = 2\<rparr>) ! 1) = ascii ''second''
   \<and> row_status (rows (update_tweet_log 30 2 None (Some (ascii ''failed'')) None (Some (ascii ''boom''))
           \<lparr>rows = example_rows, seq = 2\<rparr>) ! 1) = ascii ''failed''
   \<and> row_tweet_id (rows (update_tweet_log 30 2 None (Some (ascii ''failed'')) None (Some (ascii ''boom''))
           \<lparr>rows = example_rows, seq = 2\<rparr>) ! 1) = None
   \<and> row_updated_at (rows (update_tweet_log 30 2 None (Some (ascii ''failed'')) None (Some (ascii ''boom''))
           \<lparr>rows = example_rows, seq = 2\<rparr>) ! 1) = 30"
proof -
  let ?d = "\<lparr>rows = example_rows, seq = 2\<rparr>"
  have len: "length (rows ?d) = 2" by (simp add: example_rows_def)
  have ids: "row_id (rows ?d ! 0) \<noteq> 2" "row_id (rows ?d ! 1) = 2"
    by (simp_all add: example_rows_def)
  note fr = update_tweet_log_frame
    [of 30 2 None "Some (ascii ''failed'')" None "Some (ascii ''boom'')" ?d]
  from fr len have a0: "0 < length (rows ?d)" and a1: "1 < length (rows ?d)" by simp_all
  from fr have all: "\<forall>i < length (rows ?d).
        let r = rows ?d ! i;
            r' = rows (update_tweet_log 30 2 None (Some (ascii ''failed'')) None
                         (Some (ascii ''boom'')) ?d) ! i
        in (row_id r \<noteq> 2 \<longrightarrow> r' = r)
         \<and> (row_id r = 2 \<longrightarrow>
              row_id r' = row_id r \<and> row_text r' = row_text r
              \<and> row_created_at r' = row_created_at r
              \<and> row_tweet_id r' = (case None of None \<Rightarrow> row_tweet_id r | Some v \<Rightarrow> Some v)
              \<and> row_status r' = (case Some (ascii ''failed'') of None \<Rightarrow> row_status r | Some v \<Rightarrow> v)
              \<and> row_retry_count r' = (case None of None \<Rightarrow> row_retry_count r | Some v \<Rightarrow> v)
              \<and> row_error_message r'
                  = (case Some (ascii ''boom'') of None \<Rightarrow> row_error_message r | Some v \<Rightarrow> Some v)
              \<and> row_updated_at r' = 30)"
    by blast
  from all a0 ids(1) have r0: "rows (update_tweet_log 30 2 None (Some (ascii ''failed'')) None
           (Some (ascii ''boom'')) ?d) ! 0 = rows ?d ! 0"
    by (metis)
  from all a1 ids(2) have r1: "row_text (rows (update_tweet_log 30 2 None (Some (ascii ''failed'')) None
           (Some (ascii ''boom'')) ?d) ! 1) = row_text (rows ?d ! 1)
      \<and> row_status (rows (update_tweet_log 30 2 None (Some (ascii ''failed'')) None
           (Some (ascii ''boom'')) ?d) ! 1) = ascii ''failed''
      \<and> row_tweet_id (rows (update_tweet_log 30 2 None (Some (ascii ''failed'')) None
           (Some (ascii ''boom'')) ?d) ! 1) = row_tweet_id (rows ?d ! 1)
      \<and> row_updated_at (rows (update_tweet_log 30 2 None (Some (ascii ''failed'')) None
           (Some (ascii ''boom'')) ?d) ! 1) = 30"
    by (metis option.simps(4,5))
  from r0 r1 show ?thesis by (simp add: example_rows_def)
qed

section \<open>Authentication\<close>





section \<open>Health check\<close>

lemma health_check_try_connected:
  "health_check_try E self tr = (Inr d, self', tr') \<Longrightarrow> sd_status d = ascii ''connected''"
  by (auto simp: health_check_try_def split: prod.splits sum.splits if_splits)

lemma health_check_returns:
  "\<exists>d self' tr'. health_check E self tr = (Inr d, self', tr')
      \<and> (sd_status d = ascii ''connected'' \<or> sd_status d = ascii ''disconnected'')"
  by (auto simp: health_check_def split: prod.splits sum.splits dest!: health_check_try_connected)

text \<open>
  C9: \<open>GET /health\<close> never raises. It answers with a \<open>HealthResponse\<close>: \<open>healthy\<close> and
  the status the adapter reported when the adapter check returned, \<open>unhealthy\<close> and
  \<open>error\<close> when the service could not be fetched. The adapter's own \<open>health_check\<close>
  never raises either and reports \<open>connected\<close> or \<open>disconnected\<close>.
\<close>

theorem health_never_raises:
  "(\<exists>r a'. api_health_check E a = (Inr r, a')
      \<and> (case app_service a of
            None \<Rightarrow> hr_status r = ascii ''unhealthy'' \<and> hr_twitter_status r = ascii ''error''
          | Some service \<Rightarrow>
              hr_status r = ascii ''healthy''
              \<and> (\<exists>d self' tr'. health_check E service (app_trace a) = (Inr d, self', tr')
                    \<and> hr_twitter_status r = sd_status d)))
   \<and> (\<exists>d self' tr'. health_check E self tr = (Inr d, self', tr')
         \<and> (sd_status d = ascii ''connected'' \<or> sd_status d = ascii ''disconnected''))"
proof
  show "\<exists>d self' tr'. health_check E self tr = (Inr d, self', tr')
         \<and> (sd_status d = ascii ''connected'' \<or> sd_status d = ascii ''disconnected'')"
    by (rule health_check_returns)
next
  show "\<exists>r a'. api_health_check E a = (Inr r, a')
      \<and> (case app_service a of
            None \<Rightarrow> hr_status r = ascii ''unhealthy'' \<and> hr_twitter_status r = ascii ''error''
          | Some service \<Rightarrow>
              hr_status r = ascii ''healthy''
              \<and> (\<exists>d self' tr'. health_check E service (app_trace a) = (Inr d, self', tr')
                    \<and> hr_twitter_status r = sd_status d))"
  proof (cases "app_service a")
    case None
    then show ?thesis
      by (simp add: api_health_check_def api_health_check_try_def get_twitter_service_def)
  next
    case (Some service)
    obtain d self' tr' where h: "health_check E service (app_trace a) = (Inr d, self', tr')"
      using health_check_returns by blast
    with Some show ?thesis
      by (simp add: api_health_check_def api_health_check_try_def get_twitter_service_def)
  qed
qed

theorem health_never_raises_witness:
  "(\<exists>r a'. api_health_check env_ok (example_app\<lparr>app_service := None\<rparr>) = (Inr r, a')
      \<and> hr_status r = ascii ''unhealthy'' \<and> hr_twitter_status r = ascii ''error'')
   \<and> (\<exists>r a'. api_health_check (env_ok\<lparr>get_user_at := (\<lambda>n. Inr False)\<rparr>) example_app = (Inr r, a')
      \<and> hr_status r = ascii ''healthy'' \<and> hr_twitter_status r = ascii ''disconnected'')"
proof -
  have d: "health_check (env_ok\<lparr>get_user_at := (\<lambda>n. Inr False)\<rparr>)
             (example_service\<lparr>authenticated := True\<rparr>) []
           = (Inr \<lparr>sd_status = ascii ''disconnected'',
                   sd_message = msg_api_broken @ msg_auth_test_failed\<rparr>,
              example_service\<lparr>authenticated := True\<rparr>, [EvGetUser])"
    by (simp add: health_check_def health_check_try_def test_authentication_def env_ok_def
        example_service_def new_TwitterService_def)
  from health_never_raises [of env_ok "example_app\<lparr>app_service := None\<rparr>"]
  have first: "\<exists>r a'. api_health_check env_ok (example_app\<lparr>app_service := None\<rparr>) = (Inr r, a')
      \<and> hr_status r = ascii ''unhealthy'' \<and> hr_twitter_status r = ascii ''error''"
    by simp
  from health_never_raises [of "env_ok\<lparr>get_user_at := (\<lambda>n. Inr False)\<rparr>" example_app] d
  have second: "\<exists>r a'. api_health_check (env_ok\<lparr>get_user_at := (\<lambda>n. Inr False)\<rparr>) example_app
        = (Inr r, a')
      \<and> hr_status r = ascii ''healthy'' \<and> hr_twitter_status r = ascii ''disconnected''"
    by (simp add: example_app_def)
  from first second show ?thesis by blast
qed

section \<open>Input validation\<close>

lemma digits_small: "n < 10 \<Longrightarrow> digits n = [48 + n]"
  by (simp add: digits.simps [of n])

lemma digits_step: "\<not> n < 10 \<Longrightarrow> digits n = digits (n div 10) @ [48 + n mod 10]"
  by (simp add: digits.simps [of n])

lemma str_int_123: "str_int 123 = ascii ''123''"
proof -
  have "digits 1 = [49]" using digits_small [of 1] by simp
  then have "digits 12 = [49, 50]" using digits_step [of 12] by simp
  then have "digits 123 = [49, 50, 51]" using digits_step [of 123] by simp
  then show ?thesis by (simp add: str_int_def ascii_def)
qed

lemma str_validator_cases:
  "str_validator j = Inr t
     \<longleftrightarrow> (j = JString t \<or> (\<exists>i. j = JInt i \<and> t = str_int i) \<or> j = JFloat t
          \<or> (\<exists>v. j = JBool v \<and> t = (if v then ascii ''True'' else ascii ''False'')))"
  by (cases j) auto

lemma text_field_accepts_iff:
  "text_field v = Inr t
     \<longleftrightarrow> (\<exists>j. v = Some j \<and> str_validator j = Inr t \<and> 1 \<le> length t \<and> length t \<le> 280)"
  by (cases v) (auto simp: text_field_def Suc_le_eq split: sum.splits)

lemma parse_accepts_iff:
  "parse_TweetRequest b = Inr td
     \<longleftrightarrow> text_field (body_text b) = Inr (req_text td)
         \<and> optional_list_str (body_media b) = Inr (req_media td)
         \<and> optional_str (body_reply_to b) = Inr (req_reply_to td)"
  by (cases td) (auto simp: parse_TweetRequest_def split: sum.splits)

lemma parse_rejects:
  assumes "\<not> (\<exists>j t. body_text b = Some j \<and> str_validator j = Inr t
                 \<and> 1 \<le> length t \<and> length t \<le> 280)"
  shows "\<exists>e. parse_TweetRequest b = Inl e"
proof (cases "parse_TweetRequest b")
  case (Inl e)
  then show ?thesis by blast
next
  case (Inr td)
  with parse_accepts_iff [of b td] text_field_accepts_iff [of "body_text b" "req_text td"] assms
  show ?thesis by blast
qed

text \<open>
  C6, amended: \<open>POST /api/tweet\<close> accepts a body only when its text, taken as it is
  if it is a JSON string and converted with \<open>str\<close> if it is a number or a boolean, has
  1 to 280 characters; it accepts it exactly when in addition \<open>media\<close> and \<open>reply_to\<close>
  are valid. A body whose text is missing, null, an array or an object, empty or
  over-length is answered with 422 and nothing else happens: the log store and the
  service are as before, and the only new event is the response, so no row was
  inserted and no adapter call was made.
\<close>

theorem validation_gate:
  "(parse_TweetRequest b = Inr td
      \<longleftrightarrow> (\<exists>j. body_text b = Some j
               \<and> (j = JString (req_text td) \<or> (\<exists>i. j = JInt i \<and> req_text td = str_int i)
                   \<or> j = JFloat (req_text td)
                   \<or> (\<exists>v. j = JBool v
                         \<and> req_text td = (if v then ascii ''True'' else ascii ''False''))))
          \<and> 1 \<le> length (req_text td) \<and> length (req_text td) \<le> 280
          \<and> optional_list_str (body_media b) = Inr (req_media td)
          \<and> optional_str (body_reply_to b) = Inr (req_reply_to td))
   \<and> (\<not> (\<exists>j t. body_text b = Some j
              \<and> (j = JString t \<or> (\<exists>i. j = JInt i \<and> t = str_int i) \<or> j = JFloat t
                  \<or> (\<exists>v. j = JBool v \<and> t = (if v then ascii ''True'' else ascii ''False'')))
              \<and> 1 \<le> length t \<and> length t \<le> 280)
      \<longrightarrow> (\<exists>e. post_api_tweet E b a
                  = (Unprocessable422 e, a\<lparr>app_trace := app_trace a @ [EvResponse 422]\<rparr>)))"
proof (intro conjI impI)
  show "parse_TweetRequest b = Inr td
      \<longleftrightarrow> (\<exists>j. body_text b = Some j
               \<and> (j = JString (req_text td) \<or> (\<exists>i. j = JInt i \<and> req_text td = str_int i)
                   \<or> j = JFloat (req_text td)
                   \<or> (\<exists>v. j = JBool v
                         \<and> req_text td = (if v then ascii ''True'' else ascii ''False''))))
          \<and> 1 \<le> length (req_text td) \<and> length (req_text td) \<le> 280
          \<and> optional_list_str (body_media b) = Inr (req_media td)
          \<and> optional_str (body_reply_to b) = Inr (req_reply_to td)"
    unfolding parse_accepts_iff text_field_accepts_iff str_validator_cases by blast
next
  assume "\<not> (\<exists>j t. body_text b = Some j
              \<and> (j = JString t \<or> (\<exists>i. j = JInt i \<and> t = str_int i) \<or> j = JFloat t
                  \<or> (\<exists>v. j = JBool v \<and> t = (if v then ascii ''True'' else ascii ''False'')))
              \<and> 1 \<le> length t \<and> length t \<le> 280)"
  then have "\<not> (\<exists>j t. body_text b = Some j \<and> str_validator j = Inr t
                 \<and> 1 \<le> length t \<and> length t \<le> 280)"
    unfolding str_validator_cases by blast
  then obtain e where "parse_TweetRequest b = Inl e" using parse_rejects by blast
  then show "\<exists>e. post_api_tweet E b a
                  = (Unprocessable422 e, a\<lparr>app_trace := app_trace a @ [EvResponse 422]\<rparr>)"
    by (simp add: post_api_tweet_def respond_def)
qed

theorem validation_gate_witness:
  "parse_TweetRequest example_body = Inr example_request
   \<and> (\<exists>e. post_api_tweet env_ok
           \<lparr>body_text = Some (JString []), body_media = None, body_reply_to = None\<rparr> initial_app
         = (Unprocessable422 e, initial_app\<lparr>app_trace := [EvResponse 422]\<rparr>))
   \<and> (\<exists>e. post_api_tweet env_ok
           \<lparr>body_text = Some (JString (replicate 300 97)), body_media = None,
            body_reply_to = None\<rparr> initial_app
         = (Unprocessable422 e, initial_app\<lparr>app_trace := [EvResponse 422]\<rparr>))"
proof -
  have len: "length (ascii ''hello'') = 5" by (simp add: ascii_def)
  from validation_gate [of example_body example_request] len
  have first: "parse_TweetRequest example_body = Inr example_request"
    by (simp add: example_body_def example_request_def)
  from validation_gate [of "\<lparr>body_text = Some (JString []), body_media = None,
      body_reply_to = None\<rparr>" _ env_ok initial_app]
  have second: "\<exists>e. post_api_tweet env_ok
           \<lparr>body_text = Some (JString []), body_media = None, body_reply_to = None\<rparr> initial_app
         = (Unprocessable422 e, initial_app\<lparr>app_trace := [EvResponse 422]\<rparr>)"
    by (simp add: initial_app_def)
  from validation_gate [of "\<lparr>body_text = Some (JString (replicate 300 97)), body_media = None,
      body_reply_to = None\<rparr>" _ env_ok initial_app]
  have third: "\<exists>e. post_api_tweet env_ok
           \<lparr>body_text = Some (JString (replicate 300 97)), body_media = None,
            body_reply_to = None\<rparr> initial_app
         = (Unprocessable422 e, initial_app\<lparr>app_trace := [EvResponse 422]\<rparr>)"
    by (simp add: initial_app_def)
  from first second third show ?thesis by blast
qed

section \<open>Traces of the adapter\<close>

lemma extends_refl: "extends 0 tr tr"
  by (simp add: extends_def posts_def)

lemma extends_trans: "extends j tr tr' \<Longrightarrow> extends k tr' tr'' \<Longrightarrow> extends (j + k) tr tr''"
  by (auto simp: extends_def posts_def)

lemma extends_mono: "extends j tr tr' \<Longrightarrow> j \<le> k \<Longrightarrow> extends k tr tr'"
  by (auto simp: extends_def)

lemma test_authentication_extends:
  "test_authentication E tr = (r, tr') \<Longrightarrow> extends 0 tr tr'"
  by (auto simp: test_authentication_def extends_def posts_def split: sum.splits if_splits)

lemma full_login_extends:
  "full_login E self tr = (r, self', tr') \<Longrightarrow> extends 0 tr tr'"
  by (auto simp: full_login_def extends_def posts_def split: option.splits)

lemma authenticate_try_extends:
  "authenticate_try E self tr = (r, self', tr') \<Longrightarrow> extends 0 tr tr'"
  by (auto simp: authenticate_try_def test_authentication_def full_login_def extends_def posts_def
      split: option.splits if_splits sum.splits prod.splits)

lemma authenticate_extends:
  "authenticate E self tr = (r, self', tr') \<Longrightarrow> extends 0 tr tr'"
  by (auto simp: authenticate_def extends_def posts_def
      split: prod.splits sum.splits dest!: authenticate_try_extends)

lemma upload_media_extends:
  "upload_media E i ms ids tr = (r, tr') \<Longrightarrow> extends 0 tr tr'"
proof (induction ms arbitrary: i ids tr)
  case Nil
  then show ?case by (simp add: extends_refl)
next
  case (Cons m ms)
  show ?case
  proof (cases "upload_at E (length tr)")
    case (Inl e)
    with Cons.prems show ?thesis by (auto simp: extends_def posts_def)
  next
    case (Inr media_id)
    with Cons.prems have "upload_media E (Suc i) ms (ids @ [media_id]) (tr @ [EvUploadMedia i]) = (r, tr')"
      by simp
    from Cons.IH [OF this] have "extends 0 (tr @ [EvUploadMedia i]) tr'" .
    moreover have "extends 0 tr (tr @ [EvUploadMedia i])" by (simp add: extends_def posts_def)
    ultimately show ?thesis using extends_trans by fastforce
  qed
qed

lemma post_try_extends:
  "post_try E t m rt tr = (r, tr') \<Longrightarrow> extends (Suc 0) tr tr'"
proof -
  assume a: "post_try E t m rt tr = (r, tr')"
  obtain r1 tr1 where u: "(case m of None \<Rightarrow> (Inr [], tr)
            | Some ms \<Rightarrow> if ms \<noteq> [] then upload_media E 0 ms [] tr else (Inr [], tr)) = (r1, tr1)"
    by fastforce
  have e1: "extends 0 tr tr1"
    using u by (auto split: option.splits if_splits simp: extends_refl dest: upload_media_extends)
  have e2: "extends (Suc 0) tr1 tr'"
    using a u by (auto simp: post_try_def Let_def extends_def posts_def split: sum.splits)
  from extends_trans [OF e1 e2] show ?thesis by simp
qed

lemma post_step_extends:
  "post_step E t m rt self tr = (r, self', tr') \<Longrightarrow> extends (Suc 0) tr tr'"
  by (auto simp: post_step_def split: prod.splits sum.splits dest: post_try_extends)

lemma create_tweet_attempt_extends:
  "create_tweet_attempt E t m rt self tr = (r, self', tr') \<Longrightarrow> extends (Suc 0) tr tr'"
proof (cases "authenticated self")
  case True
  assume "create_tweet_attempt E t m rt self tr = (r, self', tr')"
  with True show ?thesis by (simp add: create_tweet_attempt_def post_step_extends)
next
  case False
  assume a: "create_tweet_attempt E t m rt self tr = (r, self', tr')"
  obtain r1 s1 tr1 where au: "authenticate E self tr = (r1, s1, tr1)" by (metis prod_cases3)
  from authenticate_extends [OF au] have e1: "extends 0 tr tr1" .
  show ?thesis
  proof (cases r1)
    case (Inl e)
    with a au False have "tr' = tr1" by (simp add: create_tweet_attempt_def)
    with e1 show ?thesis using extends_mono by blast
  next
    case (Inr b)
    with a au False have "post_step E t m rt s1 tr1 = (r, self', tr')"
      by (simp add: create_tweet_attempt_def)
    from extends_trans [OF e1 post_step_extends [OF this]] show ?thesis by simp
  qed
qed

lemma retry_extends:
  assumes step: "\<And>self tr r self' tr'. f self tr = (r, self', tr') \<Longrightarrow> extends (Suc 0) tr tr'"
  shows "retry stop wait f k self tr = (r, self', tr') \<Longrightarrow> extends (Suc (stop - k)) tr tr'"
  using step
proof (induction stop wait f k self tr rule: retry.induct)
  case (1 stop wait f k self tr)
  obtain r1 s1 tr1 where f1: "f self tr = (r1, s1, tr1)" by (metis prod_cases3)
  have e1: "extends (Suc 0) tr tr1" using "1.prems"(2) f1 by blast
  show ?case
  proof (cases r1)
    case (Inr v)
    with "1.prems"(1) f1 have "tr' = tr1" by (simp add: retry.simps [of stop wait f k self tr])
    with e1 show ?thesis by (simp add: extends_mono)
  next
    case (Inl e)
    show ?thesis
    proof (cases "k \<ge> stop")
      case True
      with Inl "1.prems"(1) f1 have "tr' = tr1" by (simp add: retry.simps [of stop wait f k self tr])
      with e1 show ?thesis by (simp add: extends_mono)
    next
      case False
      with Inl "1.prems"(1) f1
      have rec: "retry stop wait f (Suc k) s1 (tr1 @ [EvSleep (wait k)]) = (r, self', tr')"
        by (simp add: retry.simps [of stop wait f k self tr])
      have "extends (Suc (stop - Suc k)) (tr1 @ [EvSleep (wait k)]) tr'"
        using "1.IH" [OF f1 [symmetric] _ _ False rec "1.prems"(2)] Inl by simp
      moreover have "extends 0 tr1 (tr1 @ [EvSleep (wait k)])"
        by (simp add: extends_def posts_def)
      ultimately have "extends (Suc 0 + (0 + Suc (stop - Suc k))) tr tr'"
        using e1 extends_trans by blast
      moreover have "Suc 0 + (0 + Suc (stop - Suc k)) = Suc (stop - k)" using False by simp
      ultimately show ?thesis by simp
    qed
  qed
qed

lemma create_tweet_extends:
  "create_tweet E t m rt self tr = (r, self', tr') \<Longrightarrow> extends 3 tr tr'"
  using retry_extends [of "create_tweet_attempt E t m rt" 3 "wait_exponential E 1 2 10" 1 self tr r self' tr']
    create_tweet_attempt_extends [of E t m rt]
  by (simp add: create_tweet_def)

section \<open>The retry decorator\<close>

lemma retry3:
  "retry 3 w f 1 self tr =
     (case f self tr of
        (Inr r, s1, t1) \<Rightarrow> (Inr r, s1, t1)
      | (Inl e, s1, t1) \<Rightarrow>
         (case f s1 (t1 @ [EvSleep (w 1)]) of
            (Inr r, s2, t2) \<Rightarrow> (Inr r, s2, t2)
          | (Inl e, s2, t2) \<Rightarrow> f s2 (t2 @ [EvSleep (w 2)])))"
proof -
  have three: "retry 3 w f 3 s t = f s t" for s t
    by (subst retry.simps) (auto split: prod.splits sum.splits)
  have two: "retry 3 w f 2 s t =
     (case f s t of (Inr r, s2, t2) \<Rightarrow> (Inr r, s2, t2)
        | (Inl e, s2, t2) \<Rightarrow> f s2 (t2 @ [EvSleep (w 2)]))" for s t
    by (subst retry.simps) (auto split: prod.splits sum.splits simp: three numeral_3_eq_3 numeral_2_eq_2)
  show ?thesis
    by (subst retry.simps) (auto split: prod.splits sum.splits simp: two numeral_2_eq_2)
qed

lemma create_tweet_post_bound:
  assumes "create_tweet E t m rt self tr = (r, self', tr')"
  shows "\<exists>evs. tr' = tr @ evs \<and> posts evs \<le> 3"
  using create_tweet_extends [OF assms] by (auto simp: extends_def)

lemma is_auth_error_rate: "is_auth_error (ascii ''rate limit exceeded'') = False"
  by (simp add: is_auth_error_def auth_keywords_def ascii_def lower_def)

lemma attempt_fail:
  "authenticated s \<Longrightarrow> create_tweet_attempt env_post_fails (ascii ''hello'') None None s tr
    = (Inl (TwitterClientError (msg_tweet_failed @ ascii ''rate limit exceeded'')), s,
       tr @ [EvCreateTweet (ascii ''hello'') None None])"
  by (simp add: create_tweet_attempt_def post_step_def post_try_def truthy_def env_post_fails_def env_ok_def is_auth_error_rate)

text \<open>
  C3: a call of the adapter's \<open>create_tweet\<close> attempts the post at most
  \<open>max_retry_attempts\<close> times. The decorator is written with the constant 3 and does
  not read the settings: with \<open>max_retry_attempts = 1\<close> and a client whose every post
  fails, the call posts three times before it raises the last error.
\<close>

theorem retry_ignores_max_retry_attempts:
  "max_retry_attempts (example_settings\<lparr>max_retry_attempts := 1\<rparr>) = 1
   \<and> fst (create_tweet env_post_fails (ascii ''hello'') None None
            (example_service\<lparr>authenticated := True\<rparr>) [])
       = Inl (TwitterClientError (msg_tweet_failed @ ascii ''rate limit exceeded''))
   \<and> posts (snd (snd (create_tweet env_post_fails (ascii ''hello'') None None
                        (example_service\<lparr>authenticated := True\<rparr>) []))) = 3"
  by (simp add: create_tweet_def retry3 attempt_fail example_service_def new_TwitterService_def
      posts_def)

section \<open>The cached authentication flag\<close>

lemma lower_append: "lower (a @ b) = lower a @ lower b"
  by (simp add: lower_def)

lemma is_auth_error_tweet_failed: "is_auth_error (msg_tweet_failed @ m) = is_auth_error m"
  by (simp add: is_auth_error_def auth_keywords_def ascii_def lower_append msg_tweet_failed_def)
     (simp add: lower_def)

lemma post_step_auth_reset:
  assumes "post_step E t m rt self tr = (Inl e, self', tr')"
  shows "self' = (if is_auth_error (str e) then self\<lparr>authenticated := False\<rparr> else self)"
  using assms
  by (auto simp: post_step_def is_auth_error_tweet_failed split: prod.splits sum.splits)

lemma authenticate_fails_unchanged:
  "authenticate E self tr = (Inl e, self', tr') \<Longrightarrow> self' = self"
  by (auto simp: authenticate_def authenticate_try_def full_login_def test_authentication_def
      split: prod.splits sum.splits option.splits if_splits)

lemma attempt_auth_error_resets:
  assumes "create_tweet_attempt E t m rt self tr = (Inl e, self', tr')" "is_auth_error (str e)"
  shows "\<not> authenticated self'"
proof (cases "authenticated self")
  case True
  with assms(1) have "post_step E t m rt self tr = (Inl e, self', tr')"
    by (simp add: create_tweet_attempt_def)
  from post_step_auth_reset [OF this] assms(2) show ?thesis by simp
next
  case False
  obtain r1 s1 t1 where au: "authenticate E self tr = (r1, s1, t1)" by (metis prod_cases3)
  show ?thesis
  proof (cases r1)
    case (Inl e1)
    with au assms(1) False have "self' = s1" by (simp add: create_tweet_attempt_def)
    moreover from au Inl have "s1 = self" using authenticate_fails_unchanged by blast
    ultimately show ?thesis using False by simp
  next
    case (Inr b)
    with au assms(1) False have "post_step E t m rt s1 t1 = (Inl e, self', tr')"
      by (simp add: create_tweet_attempt_def)
    from post_step_auth_reset [OF this] assms(2) show ?thesis by simp
  qed
qed

lemma attempt_other_error_keeps:
  assumes "create_tweet_attempt E t m rt self tr = (Inl e, self', tr')" "\<not> is_auth_error (str e)"
  shows "self' = (if authenticated self then self else fst (snd (authenticate E self tr)))"
proof (cases "authenticated self")
  case True
  with assms(1) have "post_step E t m rt self tr = (Inl e, self', tr')"
    by (simp add: create_tweet_attempt_def)
  from post_step_auth_reset [OF this] assms(2) True show ?thesis by simp
next
  case False
  obtain r1 s1 t1 where au: "authenticate E self tr = (r1, s1, t1)" by (metis prod_cases3)
  show ?thesis
  proof (cases r1)
    case (Inl e1)
    with au assms(1) False show ?thesis by (simp add: create_tweet_attempt_def)
  next
    case (Inr b)
    with au assms(1) False have "post_step E t m rt s1 t1 = (Inl e, self', tr')"
      by (simp add: create_tweet_attempt_def)
    from post_step_auth_reset [OF this] assms(2) au False show ?thesis by simp
  qed
qed

lemma retry_last_attempt:
  "retry stop wait f k self tr = (Inl e, self', tr') \<Longrightarrow> \<exists>s0 t0. f s0 t0 = (Inl e, self', tr')"
proof (induction stop wait f k self tr rule: retry.induct)
  case (1 stop wait f k self tr)
  obtain r1 s1 tr1 where f1: "f self tr = (r1, s1, tr1)" by (metis prod_cases3)
  show ?case
  proof (cases r1)
    case (Inr v)
    with "1.prems" f1 show ?thesis by (simp add: retry.simps [of stop wait f k self tr])
  next
    case (Inl e1)
    show ?thesis
    proof (cases "k \<ge> stop")
      case True
      with Inl "1.prems" f1 have "f self tr = (Inl e, self', tr')"
        by (simp add: retry.simps [of stop wait f k self tr])
      then show ?thesis by blast
    next
      case False
      with Inl "1.prems" f1
      have rec: "retry stop wait f (Suc k) s1 (tr1 @ [EvSleep (wait k)]) = (Inl e, self', tr')"
        by (simp add: retry.simps [of stop wait f k self tr])
      show ?thesis using "1.IH" [OF f1 [symmetric] _ _ False rec] Inl by simp
    qed
  qed
qed

lemma create_tweet_auth_error_resets:
  assumes "create_tweet E t m rt self tr = (Inl e, self', tr')" "is_auth_error (str e)"
  shows "\<not> authenticated self'"
proof -
  from assms(1) obtain s0 t0 where "create_tweet_attempt E t m rt s0 t0 = (Inl e, self', tr')"
    unfolding create_tweet_def using retry_last_attempt by blast
  from attempt_auth_error_resets [OF this assms(2)] show ?thesis .
qed

lemma authenticate_starts:
  "\<exists>evs. snd (snd (authenticate E self tr)) = tr @ EvAuthenticate # evs"
proof -
  obtain r s t where a: "authenticate_try E self (tr @ [EvAuthenticate]) = (r, s, t)"
    by (metis prod_cases3)
  from authenticate_try_extends [OF a] obtain evs where "t = (tr @ [EvAuthenticate]) @ evs"
    by (auto simp: extends_def)
  with a show ?thesis by (auto simp: authenticate_def split: sum.splits)
qed

lemma attempt_starts:
  assumes "\<not> authenticated self"
  shows "\<exists>evs. snd (snd (create_tweet_attempt E t m rt self tr)) = tr @ EvAuthenticate # evs"
proof -
  obtain r1 s1 t1 where au: "authenticate E self tr = (r1, s1, t1)" by (metis prod_cases3)
  from authenticate_starts [of E self tr] au obtain evs where t1: "t1 = tr @ EvAuthenticate # evs"
    by auto
  show ?thesis
  proof (cases r1)
    case (Inl e)
    with au assms t1 show ?thesis by (simp add: create_tweet_attempt_def)
  next
    case (Inr b)
    obtain r2 s2 t2 where ps: "post_step E t m rt s1 t1 = (r2, s2, t2)" by (metis prod_cases3)
    from post_step_extends [OF ps] obtain evs2 where "t2 = t1 @ evs2" by (auto simp: extends_def)
    with Inr au assms t1 ps show ?thesis by (simp add: create_tweet_attempt_def)
  qed
qed

lemma retry_prefix:
  assumes step: "\<And>self tr r self' tr'. f self tr = (r, self', tr') \<Longrightarrow> extends (Suc 0) tr tr'"
    and f1: "f self tr = (r1, s1, t1)"
  shows "\<exists>evs. snd (snd (retry stop wait f k self tr)) = t1 @ evs"
proof (cases "\<exists>e. r1 = Inl e \<and> \<not> k \<ge> stop")
  case False
  with f1 have "snd (snd (retry stop wait f k self tr)) = t1"
    by (cases r1) (auto simp: retry.simps [of stop wait f k self tr])
  then show ?thesis by simp
next
  case True
  then obtain e where e: "r1 = Inl e" "\<not> k \<ge> stop" by blast
  obtain r s' t' where rec: "retry stop wait f (Suc k) s1 (t1 @ [EvSleep (wait k)]) = (r, s', t')"
    by (metis prod_cases3)
  have "extends (Suc (stop - Suc k)) (t1 @ [EvSleep (wait k)]) t'"
    by (rule retry_extends [OF _ rec], rule step)
  then obtain evs where "t' = (t1 @ [EvSleep (wait k)]) @ evs"
    by (auto simp: extends_def)
  moreover from f1 e rec have "retry stop wait f k self tr = (r, s', t')"
    by (simp add: retry.simps [of stop wait f k self tr])
  ultimately show ?thesis by simp
qed

lemma create_tweet_starts:
  assumes "\<not> authenticated self"
  shows "\<exists>evs. snd (snd (create_tweet E t m rt self tr)) = tr @ EvAuthenticate # evs"
proof -
  obtain r1 s1 t1 where f1: "create_tweet_attempt E t m rt self tr = (r1, s1, t1)"
    by (metis prod_cases3)
  from attempt_starts [OF assms, of E t m rt tr] f1 obtain evs1 where t1: "t1 = tr @ EvAuthenticate # evs1"
    by auto
  have "\<exists>evs. snd (snd (retry 3 (wait_exponential E 1 2 10) (create_tweet_attempt E t m rt)
                1 self tr)) = t1 @ evs"
    by (rule retry_prefix [where f = "create_tweet_attempt E t m rt" and ?r1.0 = r1 and ?s1.0 = s1])
       (rule create_tweet_attempt_extends, assumption, rule f1)
  then obtain evs where "snd (snd (create_tweet E t m rt self tr)) = t1 @ evs"
    unfolding create_tweet_def by blast
  with t1 show ?thesis by simp
qed

lemma health_check_starts:
  assumes "\<not> authenticated self"
  shows "\<exists>evs. snd (snd (health_check E self tr)) = tr @ EvAuthenticate # evs"
proof -
  obtain r1 s1 t1 where au: "authenticate E self tr = (r1, s1, t1)" by (metis prod_cases3)
  from authenticate_starts [of E self tr] au obtain evs where t1: "t1 = tr @ EvAuthenticate # evs"
    by auto
  with au assms show ?thesis
    by (cases r1)
       (auto simp: health_check_def health_check_try_def test_authentication_def
          split: sum.splits prod.splits)
qed

lemma get_tweet_info_starts:
  assumes "\<not> authenticated self"
  shows "\<exists>evs. snd (snd (get_tweet_info E tid self tr)) = tr @ EvAuthenticate # evs"
proof -
  obtain r1 s1 t1 where au: "authenticate E self tr = (r1, s1, t1)" by (metis prod_cases3)
  from authenticate_starts [of E self tr] au obtain evs where t1: "t1 = tr @ EvAuthenticate # evs"
    by auto
  with au assms show ?thesis
    by (cases r1) (auto simp: get_tweet_info_def split: sum.splits prod.splits)
qed

lemma cx_not_auth: "\<not> is_auth_error (msg_auth_failed @ ascii ''timeout'')"
  by (simp add: is_auth_error_def auth_keywords_def ascii_def lower_def msg_auth_failed_def)

lemma cx_auth: "is_auth_error (ascii ''Unauthorized'')"
  by (simp add: is_auth_error_def auth_keywords_def ascii_def lower_def)

lemma cx_attempt1:
  "create_tweet_attempt env_auth_lost (ascii ''hello'') None None (example_service\<lparr>authenticated := True\<rparr>) []
   = (Inl (TwitterClientError (msg_tweet_failed @ ascii ''Unauthorized'')),
      example_service\<lparr>authenticated := False\<rparr>, [EvCreateTweet (ascii ''hello'') None None])"
  by (simp add: create_tweet_attempt_def post_step_def post_try_def truthy_def env_auth_lost_def
      env_ok_def cx_auth example_service_def new_TwitterService_def)

lemma cx_attempt2:
  "create_tweet_attempt env_auth_lost (ascii ''hello'') None None (example_service\<lparr>authenticated := False\<rparr>) tr
   = (Inl (TwitterClientError (msg_auth_failed @ ascii ''timeout'')),
      example_service\<lparr>authenticated := False\<rparr>, tr @ [EvAuthenticate, EvPathExists, EvLogin])"
  by (simp add: create_tweet_attempt_def authenticate_def authenticate_try_def full_login_def
      env_auth_lost_def env_ok_def example_service_def new_TwitterService_def)

lemma unauthorized_attempt:
  "create_tweet_attempt env_unauthorized (ascii ''hello'') None None
     (example_service\<lparr>authenticated := b\<rparr>) tr
   = (Inl (TwitterClientError (msg_tweet_failed @ ascii ''Unauthorized'')),
      example_service\<lparr>authenticated := False\<rparr>,
      tr @ (if b then [] else [EvAuthenticate, EvPathExists, EvLoadCookies, EvGetUser])
         @ [EvCreateTweet (ascii ''hello'') None None])"
  by (simp add: create_tweet_attempt_def post_step_def post_try_def authenticate_def
      authenticate_try_def test_authentication_def env_unauthorized_def env_ok_def cx_auth
      example_service_def new_TwitterService_def)

text \<open>
  C4, as stated, fails on a call that is retried: the adapter is authenticated, the
  first attempt is answered \<open>Unauthorized\<close> and resets the flag, and the next two
  attempts fail in \<open>authenticate\<close> with a timeout. The error that \<open>create_tweet\<close> raises
  contains none of the keywords, and the flag has changed from True to False.
\<close>

theorem auth_flag_changed_counterexample:
  "authenticated (example_service\<lparr>authenticated := True\<rparr>)
   \<and> create_tweet env_auth_lost (ascii ''hello'') None None
        (example_service\<lparr>authenticated := True\<rparr>) []
      = (Inl (TwitterClientError (msg_auth_failed @ ascii ''timeout'')),
         example_service\<lparr>authenticated := False\<rparr>,
         [EvCreateTweet (ascii ''hello'') None None, EvSleep 2,
          EvAuthenticate, EvPathExists, EvLogin, EvSleep 2,
          EvAuthenticate, EvPathExists, EvLogin])
   \<and> \<not> is_auth_error (str (TwitterClientError (msg_auth_failed @ ascii ''timeout'')))
   \<and> \<not> authenticated (example_service\<lparr>authenticated := False\<rparr>)"
  by (simp add: create_tweet_def retry3 cx_attempt1 cx_attempt2 cx_not_auth)
     (simp add: env_auth_lost_def env_ok_def)

text \<open>
  C4, amended: whenever \<open>create_tweet\<close> fails with an authentication-related error,
  the flag is False afterwards, and a call of \<open>create_tweet\<close>, \<open>health_check\<close> or
  \<open>get_tweet_info\<close> that finds the flag False begins with \<open>authenticate\<close>. When one
  attempt fails with an error that is not authentication-related, the failure leaves
  the flag as the authentication step of that attempt left it: unchanged when the
  adapter was authenticated already.
\<close>

theorem auth_flag_after_failure:
  "(create_tweet E t m rt self tr = (Inl e, self', tr') \<and> is_auth_error (str e)
      \<longrightarrow> \<not> authenticated self')
   \<and> (\<not> authenticated self
      \<longrightarrow> (\<exists>evs. snd (snd (create_tweet E t m rt self tr)) = tr @ EvAuthenticate # evs)
          \<and> (\<exists>evs. snd (snd (health_check E self tr)) = tr @ EvAuthenticate # evs)
          \<and> (\<exists>evs. snd (snd (get_tweet_info E tid self tr)) = tr @ EvAuthenticate # evs))
   \<and> (create_tweet_attempt E t m rt self tr = (Inl e2, self2, tr2) \<and> \<not> is_auth_error (str e2)
      \<longrightarrow> self2 = (if authenticated self then self else fst (snd (authenticate E self tr))))"
  using create_tweet_auth_error_resets [of E t m rt self tr e self' tr']
    create_tweet_starts [of self E t m rt tr] health_check_starts [of self E tr]
    get_tweet_info_starts [of self E tid tr]
    attempt_other_error_keeps [of E t m rt self tr e2 self2 tr2]
  by blast

theorem auth_flag_after_failure_witness:
  "\<not> authenticated (fst (snd (create_tweet env_unauthorized (ascii ''hello'') None None
                                (example_service\<lparr>authenticated := True\<rparr>) [])))
   \<and> (\<exists>evs. snd (snd (create_tweet env_ok (ascii ''hello'') None None example_service []))
          = EvAuthenticate # evs)
   \<and> fst (snd (create_tweet_attempt env_post_fails (ascii ''hello'') None None
                 (example_service\<lparr>authenticated := True\<rparr>) []))
       = example_service\<lparr>authenticated := True\<rparr>"
proof -
  let ?svc = "example_service\<lparr>authenticated := True\<rparr>"
  let ?off = "example_service\<lparr>authenticated := False\<rparr>"
  obtain tr' where run: "create_tweet env_unauthorized (ascii ''hello'') None None ?svc []
      = (Inl (TwitterClientError (msg_tweet_failed @ ascii ''Unauthorized'')), ?off, tr')"
    by (simp add: create_tweet_def retry3 unauthorized_attempt [of True, simplified]
        unauthorized_attempt [of False, simplified])
  have auth: "is_auth_error (str (TwitterClientError (msg_tweet_failed @ ascii ''Unauthorized'')))"
    by (simp add: is_auth_error_tweet_failed cx_auth)
  from auth_flag_after_failure [of env_unauthorized "ascii ''hello''" None None ?svc "[]"
      "TwitterClientError (msg_tweet_failed @ ascii ''Unauthorized'')" ?off tr'] run auth
  have first: "\<not> authenticated (fst (snd (create_tweet env_unauthorized (ascii ''hello'') None None
                                ?svc [])))"
    by simp
  have off: "\<not> authenticated example_service"
    by (simp add: example_service_def new_TwitterService_def)
  from auth_flag_after_failure [of env_ok "ascii ''hello''" None None example_service "[]"] off
  have second: "\<exists>evs. snd (snd (create_tweet env_ok (ascii ''hello'') None None example_service []))
          = EvAuthenticate # evs"
    by simp
  have att: "create_tweet_attempt env_post_fails (ascii ''hello'') None None ?svc []
      = (Inl (TwitterClientError (msg_tweet_failed @ ascii ''rate limit exceeded'')), ?svc,
         [EvCreateTweet (ascii ''hello'') None None])"
    using attempt_fail [of ?svc "[]"] by simp
  have other: "\<not> is_auth_error (str (TwitterClientError (msg_tweet_failed @ ascii ''rate limit exceeded'')))"
    by (simp add: is_auth_error_tweet_failed is_auth_error_rate)
  from auth_flag_after_failure [where E = env_post_fails and t = "ascii ''hello''" and m = None
      and rt = None and self = ?svc and tr = "[]"
      and ?e2.0 = "TwitterClientError (msg_tweet_failed @ ascii ''rate limit exceeded'')"
      and ?self2.0 = ?svc and ?tr2.0 = "[EvCreateTweet (ascii ''hello'') None None]"] att other
  have third: "fst (snd (create_tweet_attempt env_post_fails (ascii ''hello'') None None ?svc []))
       = ?svc"
    by simp
  from first second third show ?thesis by blast
qed

section \<open>The publish endpoint\<close>

lemma fold_max_ge: "(acc::nat) \<le> fold max xs acc \<and> (\<forall>x \<in> set xs. x \<le> fold max xs acc)"
proof (induction xs arbitrary: acc)
  case Nil
  show ?case by simp
next
  case (Cons x xs)
  from Cons.IH [of "max x acc"] show ?case by auto
qed

lemma next_rowid_fresh: "r \<in> set (rows d) \<Longrightarrow> row_id r < next_rowid d"
  using fold_max_ge [of "seq d" "map row_id (rows d)"] by (auto simp: next_rowid_def less_Suc_eq_le)

lemma find_fresh: "\<forall>r \<in> set rs. row_id r \<noteq> i \<Longrightarrow> find (\<lambda>r. row_id r = i) (rs @ [x]) = (if row_id x = i then Some x else None)"
  by (induction rs) auto

lemma find_none: "\<forall>r \<in> set rs. row_id r \<noteq> i \<Longrightarrow> find (\<lambda>r. row_id r = i) rs = None"
  by (induction rs) auto

lemma lookup_row_log_tweet:
  assumes "log_tweet now t ti st em d = Inr (i, d')"
  shows "lookup_row d' i = Some \<lparr>row_id = i, row_tweet_id = ti, row_text = t, row_status = st,
        row_retry_count = 0, row_error_message = em, row_created_at = now, row_updated_at = now\<rparr>"
    and "lookup_row d i = None"
proof -
  from assms have i: "i = next_rowid d" by (auto simp: log_tweet_def Let_def split: if_splits)
  have fresh: "\<forall>r \<in> set (rows d). row_id r \<noteq> i" using next_rowid_fresh [of _ d] i by fastforce
  from find_fresh [OF fresh] assms
  show "lookup_row d' i = Some \<lparr>row_id = i, row_tweet_id = ti, row_text = t, row_status = st,
        row_retry_count = 0, row_error_message = em, row_created_at = now, row_updated_at = now\<rparr>"
    by (auto simp: lookup_row_def log_tweet_def Let_def split: if_splits)
  from find_none [OF fresh] show "lookup_row d i = None" by (simp add: lookup_row_def)
qed

lemma encodable_processing: "encodable (ascii ''processing'')"
  by (simp add: encodable_def ascii_def)

text \<open>The insertion of the endpoint raises exactly when the text cannot be encoded.\<close>

lemma db_log_tweet_raises:
  "\<not> encodable t \<Longrightarrow>
     db_log_tweet E t (ascii ''processing'') a = (Inl (UnicodeEncodeError msg_surrogates), a)"
  by (simp add: db_log_tweet_def log_tweet_def)

lemma db_log_tweet_returns:
  "encodable t \<Longrightarrow> \<exists>log_id a1. db_log_tweet E t (ascii ''processing'') a = (Inr log_id, a1)"
  by (simp add: db_log_tweet_def log_tweet_def encodable_processing encodable_opt_def Let_def)

lemma find_update:
  assumes "\<And>r. row_id (f r) = row_id r"
  shows "find (\<lambda>r. row_id r = i) (map (\<lambda>r. if row_id r = i then f r else r) rs)
     = map_option f (find (\<lambda>r. row_id r = i) rs)"
  using assms by (induction rs) auto

lemma lookup_row_update:
  "lookup_row (update_tweet_log now i ti st rc em d) i =
     map_option (\<lambda>r. r\<lparr>row_tweet_id := (case ti of None \<Rightarrow> row_tweet_id r | Some v \<Rightarrow> Some v),
       row_status := (case st of None \<Rightarrow> row_status r | Some v \<Rightarrow> v),
       row_retry_count := (case rc of None \<Rightarrow> row_retry_count r | Some v \<Rightarrow> v),
       row_error_message := (case em of None \<Rightarrow> row_error_message r | Some v \<Rightarrow> Some v),
       row_updated_at := now\<rparr>) (lookup_row d i)"
  unfolding lookup_row_def update_tweet_log_rows update_items_row
  by (rule find_update) simp

lemma adapter_call_frame:
  assumes "adapter_call E td a = (res, a2)"
  shows "app_db a2 = app_db a \<and> extends 3 (app_trace a) (app_trace a2)"
proof (cases "app_service a")
  case None
  with assms show ?thesis by (auto simp: adapter_call_def get_twitter_service_def extends_def posts_def)
next
  case (Some service)
  obtain r s t where c: "create_tweet E (req_text td) (req_media td) (req_reply_to td) service (app_trace a) = (r, s, t)"
    by (metis prod_cases3)
  from create_tweet_extends [OF c] Some assms c show ?thesis
    by (auto simp: adapter_call_def get_twitter_service_def)
qed

text \<open>The endpoint, with the log insertion and the adapter call named.\<close>

lemma api_create_tweet_unlogged:
  assumes "db_log_tweet E (req_text td) (ascii ''processing'') a = (Inl e, a1)"
  shows "api_create_tweet E td a =
     (Inl (HTTPException 500
        (format_error_response (now_at E (length (app_trace a1))) (ascii ''UNEXPECTED_ERROR'')
           msg_unexpected_error (Some (str e)))), a1)"
  using assms by (simp add: api_create_tweet_def api_create_tweet_try_def)

lemma api_create_tweet_failed:
  assumes "db_log_tweet E (req_text td) (ascii ''processing'') a = (Inr log_id, a1)"
    and "adapter_call E td a1 = (Inl e, a2)"
  shows "api_create_tweet E td a =
     publish_failed E log_id e
       (db_update_tweet_log E log_id None (Some (ascii ''failed'')) (Some (str e)) a2)"
  using assms
  by (simp add: api_create_tweet_def api_create_tweet_try_def process_tweet_async_def
      process_tweet_try_def publish_failed_def Let_def)

lemma api_create_tweet_posted:
  assumes "db_log_tweet E (req_text td) (ascii ''processing'') a = (Inr log_id, a1)"
    and "adapter_call E td a1 = (Inr result, a2)"
  shows "api_create_tweet E td a =
     (case new_TweetResponse E True (Some (res_tweet_id result)) msg_publish_ok (res_created_at result) of
        Inr response \<Rightarrow>
          (Inr response,
           db_update_tweet_log E log_id (Some (res_tweet_id result)) (Some (ascii ''success'')) None a2)
      | Inl ve \<Rightarrow>
          publish_failed E log_id ve
           (db_update_tweet_log E log_id (Some (res_tweet_id result)) (Some (ascii ''success'')) None a2))"
  using assms
  by (simp add: api_create_tweet_def api_create_tweet_try_def process_tweet_async_def
      process_tweet_try_def publish_failed_def Let_def split: sum.splits)

lemma db_log_tweet_props:
  assumes "db_log_tweet E t st a = (Inr log_id, a1)"
  shows "app_service a1 = app_service a"
    and "app_trace a1 = app_trace a @ [EvLogInsert log_id st]"
    and "\<exists>now. lookup_row (app_db a1) log_id =
          Some \<lparr>row_id = log_id, row_tweet_id = None, row_text = t, row_status = st,
            row_retry_count = 0, row_error_message = None, row_created_at = now,
            row_updated_at = now\<rparr>"
    and "lookup_row (app_db a) log_id = None"
proof -
  from assms obtain d where
    l: "log_tweet (now_at E (length (app_trace a))) t None st None (app_db a) = Inr (log_id, d)"
    and eq: "a1 = a\<lparr>app_db := d, app_trace := app_trace a @ [EvLogInsert log_id st]\<rparr>"
    by (auto simp: db_log_tweet_def split: sum.splits)
  from eq show "app_service a1 = app_service a" by simp
  from eq show "app_trace a1 = app_trace a @ [EvLogInsert log_id st]" by simp
  from lookup_row_log_tweet(1) [OF l] eq
  show "\<exists>now. lookup_row (app_db a1) log_id =
          Some \<lparr>row_id = log_id, row_tweet_id = None, row_text = t, row_status = st,
            row_retry_count = 0, row_error_message = None, row_created_at = now,
            row_updated_at = now\<rparr>"
    by auto
  from lookup_row_log_tweet(2) [OF l] show "lookup_row (app_db a) log_id = None" .
qed

lemma db_update_trace:
  "app_trace (db_update_tweet_log E i ti st em a) = app_trace a @ [EvLogUpdate i st]"
  by (simp add: db_update_tweet_log_def)

lemma db_update_lookup:
  "lookup_row (app_db a) i = Some r \<Longrightarrow>
   \<exists>r'. lookup_row (app_db (db_update_tweet_log E i ti (Some st) em a)) i = Some r'
      \<and> row_status r' = st \<and> row_text r' = row_text r
      \<and> row_error_message r' = (case em of None \<Rightarrow> row_error_message r | Some v \<Rightarrow> Some v)
      \<and> row_tweet_id r' = (case ti of None \<Rightarrow> row_tweet_id r | Some v \<Rightarrow> Some v)"
  by (simp add: db_update_tweet_log_def lookup_row_update)

lemma publish_failed_props:
  assumes "lookup_row (app_db a) log_id = Some r"
  shows "\<exists>body a' r'. publish_failed E log_id e a
            = (Inl (HTTPException (if is_TwitterClientError e then 400 else 500) body), a')
      \<and> err_error_code body
          = (if is_TwitterClientError e then ascii ''TWITTER_ERROR'' else ascii ''INTERNAL_ERROR'')
      \<and> err_details body = Some (str e) \<and> \<not> err_success body
      \<and> app_trace a' = app_trace a @ [EvLogUpdate log_id (Some (ascii ''failed''))]
      \<and> lookup_row (app_db a') log_id = Some r'
      \<and> row_status r' = ascii ''failed'' \<and> row_error_message r' = Some (str e)
      \<and> row_text r' = row_text r"
  using db_update_lookup [OF assms, of E None "ascii ''failed''" "Some (str e)"]
  by (auto simp: publish_failed_def Let_def format_error_response_def db_update_trace)

lemma parse_example: "parse_TweetRequest example_body = Inr example_request"
  by (simp add: parse_TweetRequest_def text_field_def example_body_def example_request_def
      ascii_def)

lemma parse_surrogate:
  "parse_TweetRequest surrogate_body
     = Inr \<lparr>req_text = [55296], req_media = None, req_reply_to = None\<rparr>"
  by (simp add: parse_TweetRequest_def text_field_def surrogate_body_def)

lemma surrogate_not_encodable: "\<not> encodable [55296]"
  by (simp add: encodable_def)

lemma encodable_hello: "encodable (ascii ''hello'')"
  by (simp add: encodable_def ascii_def)

lemma log_example:
  "db_log_tweet E (req_text example_request) (ascii ''processing'') example_app
   = (Inr 1, example_app\<lparr>app_db := \<lparr>rows = [\<lparr>row_id = 1, row_tweet_id = None,
          row_text = ascii ''hello'', row_status = ascii ''processing'', row_retry_count = 0,
          row_error_message = None, row_created_at = now_at E 0, row_updated_at = now_at E 0\<rparr>],
          seq = 1\<rparr>,
        app_trace := [EvLogInsert 1 (ascii ''processing'')]\<rparr>)"
  by (simp add: db_log_tweet_def log_tweet_def next_rowid_def example_app_def init_database_def
      example_request_def Let_def encodable_hello encodable_processing encodable_opt_def)


lemma adapter_ok_example:
  "adapter_call env_ok example_request (example_app\<lparr>app_db := d, app_trace := tr\<rparr>)
   = (Inr \<lparr>res_tweet_id = ascii ''123456789'', res_text = ascii ''hello'',
           res_created_at = Some (ascii ''2024-01-15T10:30:00Z''),
           res_user_id = ascii ''user123'', res_user_name = ascii ''Test User''\<rparr>,
      example_app\<lparr>app_db := d,
        app_trace := tr @ [EvCreateTweet (ascii ''hello'') None None]\<rparr>)"
  by (simp add: adapter_call_def get_twitter_service_def example_app_def create_tweet_def retry3
      create_tweet_attempt_def post_step_def post_try_def truthy_def env_ok_def
      example_tweet_def example_request_def example_service_def new_TwitterService_def)

subsection \<open>Start-up and the service variable\<close>

text \<open>
  \<open>startup_event\<close> leaves the variable that \<open>get_twitter_service\<close> reads as it is, so
  after the import and the start-up it is still None, and the adapter call of every
  request fails with the \<open>RuntimeError\<close> of \<open>get_twitter_service\<close>.
\<close>

lemma startup_event_keeps_service:
  "app_service (snd (startup_event E settings a)) = app_service a
   \<and> app_db (snd (startup_event E settings a)) = app_db a"
  by (simp add: startup_event_def split: sum.splits prod.splits)

lemma unset_service_adapter_fails:
  "app_service a = None \<Longrightarrow> adapter_call E td a = (Inl (RuntimeError msg_not_initialised), a)"
  by (simp add: adapter_call_def get_twitter_service_def)

lemma started_app_fields:
  "app_service started_app = None"
  "app_db started_app = init_database"
  "app_trace started_app = [EvAuthenticate, EvPathExists, EvLoadCookies, EvGetUser]"
proof -
  have ok: "fst (validate_config example_settings) = Inr True"
    by (simp add: validate_config_def example_settings_def ascii_def Let_def)
  have au: "authenticate env_ok s [] = (Inr True, s\<lparr>authenticated := True\<rparr>,
      [EvAuthenticate, EvPathExists, EvLoadCookies, EvGetUser])" for s
    by (simp add: authenticate_def authenticate_try_def test_authentication_def env_ok_def)
  show "app_service started_app = None"
    by (simp add: started_app_def startup_event_keeps_service initial_app_def)
  show "app_db started_app = init_database"
    by (simp add: started_app_def startup_event_keeps_service initial_app_def)
  show "app_trace started_app = [EvAuthenticate, EvPathExists, EvLoadCookies, EvGetUser]"
    by (simp add: started_app_def startup_event_def ok au initial_app_def)
qed

subsection \<open>A request whose text the store cannot encode\<close>

lemma post_api_tweet_unlogged:
  assumes "parse_TweetRequest b = Inr td" "\<not> encodable (req_text td)"
  shows "post_api_tweet E b a =
     (ErrorResponse 500
        (format_error_response (now_at E (length (app_trace a))) (ascii ''UNEXPECTED_ERROR'')
           msg_unexpected_error (Some msg_surrogates)),
      a\<lparr>app_trace := app_trace a @ [EvResponse 500]\<rparr>)"
  using assms api_create_tweet_unlogged [OF db_log_tweet_raises [OF assms(2)], of E a]
  by (simp add: post_api_tweet_def respond_def)

subsection \<open>A failing adapter call\<close>



subsection \<open>The status of the log row\<close>

lemma adapter_call_events:
  assumes "adapter_call E td a1 = (res, a2)"
  shows "\<exists>evs. app_trace a2 = app_trace a1 @ evs \<and> list_all is_adapter_event evs"
  using adapter_call_frame [OF assms] by (auto simp: extends_def)

text \<open>The three ways the endpoint goes on after the adapter call.\<close>

lemma publish_outcome:
  assumes log: "db_log_tweet E (req_text td) (ascii ''processing'') a = (Inr log_id, a1)"
    and call: "adapter_call E td a1 = (res, a2)"
  shows "\<exists>out a' updates r.
      api_create_tweet E td a = (out, a')
      \<and> app_trace a' = app_trace a2 @ updates
      \<and> updates \<in> {[EvLogUpdate log_id (Some (ascii ''success''))],
                     [EvLogUpdate log_id (Some (ascii ''success'')),
                      EvLogUpdate log_id (Some (ascii ''failed''))],
                     [EvLogUpdate log_id (Some (ascii ''failed'')),
                      EvLogUpdate log_id (Some (ascii ''failed''))]}
      \<and> lookup_row (app_db a') log_id = Some r
      \<and> last updates = EvLogUpdate log_id (Some (row_status r))
      \<and> (\<exists>code body. out = Inl (HTTPException code body)) = (row_status r = ascii ''failed'')
      \<and> (\<exists>response. out = Inr response) = (row_status r = ascii ''success'')
      \<and> ((\<exists>e. res = Inl e) \<longrightarrow> row_status r = ascii ''failed'')
      \<and> ((\<exists>result response. res = Inr result
             \<and> new_TweetResponse E True (Some (res_tweet_id result)) msg_publish_ok
                  (res_created_at result) = Inr response)
           \<longrightarrow> row_status r = ascii ''success'')"
proof -
  from db_log_tweet_props(3) [OF log] obtain r1 where "lookup_row (app_db a1) log_id = Some r1"
    by blast
  with adapter_call_frame [OF call] have r2: "lookup_row (app_db a2) log_id = Some r1" by simp
  have ne: "ascii ''success'' \<noteq> ascii ''failed''" by (simp add: ascii_def)
  show ?thesis
  proof (cases res)
    case (Inl e)
    let ?a3 = "db_update_tweet_log E log_id None (Some (ascii ''failed'')) (Some (str e)) a2"
    from db_update_lookup [OF r2, of E None "ascii ''failed''" "Some (str e)"]
    obtain r3 where r3: "lookup_row (app_db ?a3) log_id = Some r3" by blast
    from publish_failed_props [OF r3, of E e] api_create_tweet_failed [OF log call [unfolded Inl]]
      Inl ne
    show ?thesis by (auto simp: db_update_trace)
  next
    case (Inr result)
    let ?a3 = "db_update_tweet_log E log_id (Some (res_tweet_id result)) (Some (ascii ''success''))
                 None a2"
    from db_update_lookup [OF r2, of E "Some (res_tweet_id result)" "ascii ''success''" None]
    obtain r3 where r3: "lookup_row (app_db ?a3) log_id = Some r3" "row_status r3 = ascii ''success''"
      by blast
    show ?thesis
    proof (cases "new_TweetResponse E True (Some (res_tweet_id result)) msg_publish_ok
                    (res_created_at result)")
      case (Inl ve)
      from publish_failed_props [OF r3(1), of E ve]
        api_create_tweet_posted [OF log call [unfolded Inr]] Inl Inr ne
      show ?thesis by (auto simp: db_update_trace)
    next
      case (Inr response)
      from api_create_tweet_posted [OF log call [unfolded \<open>res = Inr result\<close>]] Inr r3
        \<open>res = Inr result\<close> ne
      show ?thesis by (auto simp: db_update_trace)
    qed
  qed
qed

lemma post_api_tweet_result:
  assumes "parse_TweetRequest b = Inr td" "api_create_tweet E td a = (out, a')"
    and "(\<exists>code body. out = Inl (HTTPException code body)) \<or> (\<exists>response. out = Inr response)"
  shows "app_trace (snd (post_api_tweet E b a))
       = app_trace a' @ [EvResponse (status_code (fst (post_api_tweet E b a)))]"
    and "app_db (snd (post_api_tweet E b a)) = app_db a'"
  using assms by (auto simp: post_api_tweet_def respond_def)

text \<open>
  C1, as stated, fails on a body that passes validation with a text the store cannot
  encode: the text is one character, a lone surrogate, the insertion raises, and the
  request is answered 500 with no row inserted.
\<close>

theorem unlogged_request_counterexample:
  "parse_TweetRequest surrogate_body
     = Inr \<lparr>req_text = [55296], req_media = None, req_reply_to = None\<rparr>
   \<and> rows (app_db started_app) = []
   \<and> rows (app_db (snd (post_api_tweet env_ok surrogate_body started_app))) = []
   \<and> status_code (fst (post_api_tweet env_ok surrogate_body started_app)) = 500"
  using post_api_tweet_unlogged [OF parse_surrogate, of env_ok started_app]
  by (simp add: parse_surrogate surrogate_not_encodable started_app_fields init_database_def)

text \<open>
  C1, amended: for every request to \<open>POST /api/tweet\<close> that passes input validation
  and whose text the log store can encode, a log row is inserted with status
  \<open>processing\<close>, and that same row's final status is exactly \<open>failed\<close> if the adapter
  call fails and exactly \<open>success\<close> if the adapter call succeeds and the response is
  built; the publish flow writes no status but these two, in one or two updates of
  that row. When the text cannot be encoded, the insertion raises: no row is inserted
  and the request is answered 500 with \<open>UNEXPECTED_ERROR\<close>.
\<close>

theorem publish_status:
  assumes "parse_TweetRequest b = Inr td"
  shows "(\<not> encodable (req_text td)
           \<longrightarrow> (\<exists>body. post_api_tweet E b a
                    = (ErrorResponse 500 body, a\<lparr>app_trace := app_trace a @ [EvResponse 500]\<rparr>)
                  \<and> err_error_code body = ascii ''UNEXPECTED_ERROR''))
       \<and> (encodable (req_text td)
           \<longrightarrow> (\<exists>log_id a1 res a2 r1 r updates.
                  db_log_tweet E (req_text td) (ascii ''processing'') a = (Inr log_id, a1)
                  \<and> lookup_row (app_db a) log_id = None
                  \<and> lookup_row (app_db a1) log_id = Some r1
                  \<and> row_status r1 = ascii ''processing'' \<and> row_text r1 = req_text td
                  \<and> adapter_call E td a1 = (res, a2)
                  \<and> lookup_row (app_db (snd (post_api_tweet E b a))) log_id = Some r
                  \<and> (row_status r = ascii ''success'' \<or> row_status r = ascii ''failed'')
                  \<and> ((\<exists>e. res = Inl e) \<longrightarrow> row_status r = ascii ''failed'')
                  \<and> ((\<exists>result response. res = Inr result
                         \<and> new_TweetResponse E True (Some (res_tweet_id result)) msg_publish_ok
                              (res_created_at result) = Inr response)
                       \<longrightarrow> row_status r = ascii ''success'')
                  \<and> app_trace (snd (post_api_tweet E b a))
                      = app_trace a2 @ updates
                          @ [EvResponse (status_code (fst (post_api_tweet E b a)))]
                  \<and> updates \<in> {[EvLogUpdate log_id (Some (ascii ''success''))],
                                 [EvLogUpdate log_id (Some (ascii ''success'')),
                                  EvLogUpdate log_id (Some (ascii ''failed''))],
                                 [EvLogUpdate log_id (Some (ascii ''failed'')),
                                  EvLogUpdate log_id (Some (ascii ''failed''))]}))"
proof (intro conjI impI)
  assume "\<not> encodable (req_text td)"
  from post_api_tweet_unlogged [OF assms this, of E a]
  show "\<exists>body. post_api_tweet E b a
                    = (ErrorResponse 500 body, a\<lparr>app_trace := app_trace a @ [EvResponse 500]\<rparr>)
                  \<and> err_error_code body = ascii ''UNEXPECTED_ERROR''"
    by (simp add: format_error_response_def)
next
  assume enc: "encodable (req_text td)"
  from db_log_tweet_returns [OF enc, of E a] obtain log_id a1 where
    log: "db_log_tweet E (req_text td) (ascii ''processing'') a = (Inr log_id, a1)" by blast
  obtain res a2 where call: "adapter_call E td a1 = (res, a2)" by fastforce
  from db_log_tweet_props [OF log] obtain r1 where
    r1: "lookup_row (app_db a1) log_id = Some r1" "row_status r1 = ascii ''processing''"
      "row_text r1 = req_text td" "lookup_row (app_db a) log_id = None"
    by auto
  from publish_outcome [OF log call] obtain out a' updates r where
    o: "api_create_tweet E td a = (out, a')" "app_trace a' = app_trace a2 @ updates"
      "updates \<in> {[EvLogUpdate log_id (Some (ascii ''success''))],
                     [EvLogUpdate log_id (Some (ascii ''success'')),
                      EvLogUpdate log_id (Some (ascii ''failed''))],
                     [EvLogUpdate log_id (Some (ascii ''failed'')),
                      EvLogUpdate log_id (Some (ascii ''failed''))]}"
      "lookup_row (app_db a') log_id = Some r"
      "last updates = EvLogUpdate log_id (Some (row_status r))"
      "(\<exists>code body. out = Inl (HTTPException code body)) = (row_status r = ascii ''failed'')"
      "(\<exists>response. out = Inr response) = (row_status r = ascii ''success'')"
      "(\<exists>e. res = Inl e) \<longrightarrow> row_status r = ascii ''failed''"
      "(\<exists>result response. res = Inr result
             \<and> new_TweetResponse E True (Some (res_tweet_id result)) msg_publish_ok
                  (res_created_at result) = Inr response)
           \<longrightarrow> row_status r = ascii ''success''"
    by blast
  have st: "row_status r = ascii ''success'' \<or> row_status r = ascii ''failed''"
    using o(3,5) by auto
  then have shape: "(\<exists>code body. out = Inl (HTTPException code body)) \<or> (\<exists>response. out = Inr response)"
    using o(6,7) by blast
  note post = post_api_tweet_result [OF assms o(1) shape]
  from post(1,2) o r1 st log call
  show "\<exists>log_id a1 res a2 r1 r updates.
                  db_log_tweet E (req_text td) (ascii ''processing'') a = (Inr log_id, a1)
                  \<and> lookup_row (app_db a) log_id = None
                  \<and> lookup_row (app_db a1) log_id = Some r1
                  \<and> row_status r1 = ascii ''processing'' \<and> row_text r1 = req_text td
                  \<and> adapter_call E td a1 = (res, a2)
                  \<and> lookup_row (app_db (snd (post_api_tweet E b a))) log_id = Some r
                  \<and> (row_status r = ascii ''success'' \<or> row_status r = ascii ''failed'')
                  \<and> ((\<exists>e. res = Inl e) \<longrightarrow> row_status r = ascii ''failed'')
                  \<and> ((\<exists>result response. res = Inr result
                         \<and> new_TweetResponse E True (Some (res_tweet_id result)) msg_publish_ok
                              (res_created_at result) = Inr response)
                       \<longrightarrow> row_status r = ascii ''success'')
                  \<and> app_trace (snd (post_api_tweet E b a))
                      = app_trace a2 @ updates
                          @ [EvResponse (status_code (fst (post_api_tweet E b a)))]
                  \<and> updates \<in> {[EvLogUpdate log_id (Some (ascii ''success''))],
                                 [EvLogUpdate log_id (Some (ascii ''success'')),
                                  EvLogUpdate log_id (Some (ascii ''failed''))],
                                 [EvLogUpdate log_id (Some (ascii ''failed'')),
                                  EvLogUpdate log_id (Some (ascii ''failed''))]}"
    apply -
    apply (rule exI [of _ log_id], rule exI [of _ a1], rule exI [of _ res], rule exI [of _ a2])
    apply (rule exI [of _ r1], rule exI [of _ r], rule exI [of _ updates])
    apply simp
    done
qed

lemma log_started:
  "encodable t \<Longrightarrow>
   db_log_tweet env_ok t (ascii ''processing'') started_app
   = (Inr 1, started_app\<lparr>app_db := \<lparr>rows = [\<lparr>row_id = 1, row_tweet_id = None,
          row_text = t, row_status = ascii ''processing'', row_retry_count = 0,
          row_error_message = None, row_created_at = 4, row_updated_at = 4\<rparr>], seq = 1\<rparr>,
        app_trace := [EvAuthenticate, EvPathExists, EvLoadCookies, EvGetUser,
                      EvLogInsert 1 (ascii ''processing'')]\<rparr>)"
  by (simp add: db_log_tweet_def log_tweet_def next_rowid_def started_app_fields
      init_database_def Let_def encodable_processing encodable_opt_def env_ok_def)

theorem publish_status_witness:
  "(\<exists>body. post_api_tweet env_ok surrogate_body started_app
       = (ErrorResponse 500 body,
          started_app\<lparr>app_trace := app_trace started_app @ [EvResponse 500]\<rparr>)
     \<and> err_error_code body = ascii ''UNEXPECTED_ERROR'')
   \<and> (\<exists>r. lookup_row (app_db (snd (post_api_tweet env_ok example_body started_app))) 1 = Some r
          \<and> row_status r = ascii ''failed'')
   \<and> (\<exists>r. lookup_row (app_db (snd (post_api_tweet env_ok example_body example_app))) 1 = Some r
          \<and> row_status r = ascii ''success'')"
proof -
  from publish_status [OF parse_surrogate, of env_ok started_app] surrogate_not_encodable
  have first: "\<exists>body. post_api_tweet env_ok surrogate_body started_app
       = (ErrorResponse 500 body,
          started_app\<lparr>app_trace := app_trace started_app @ [EvResponse 500]\<rparr>)
     \<and> err_error_code body = ascii ''UNEXPECTED_ERROR''"
    by simp
  have req: "req_text example_request = ascii ''hello''" by (simp add: example_request_def)
  from publish_status [OF parse_example, of env_ok started_app] encodable_hello req
  obtain log_id a1 res a2 r where
    f: "db_log_tweet env_ok (ascii ''hello'') (ascii ''processing'') started_app = (Inr log_id, a1)"
      "adapter_call env_ok example_request a1 = (res, a2)"
      "lookup_row (app_db (snd (post_api_tweet env_ok example_body started_app))) log_id = Some r"
      "(\<exists>e. res = Inl e) \<longrightarrow> row_status r = ascii ''failed''"
    by auto
  from f(1) log_started [OF encodable_hello] have id: "log_id = 1" by simp
  from db_log_tweet_props(1) [OF f(1)] have "app_service a1 = None"
    by (simp add: started_app_fields)
  with f(2) unset_service_adapter_fails [of a1 env_ok example_request]
  have "\<exists>e. res = Inl e" by auto
  with f(3,4) id
  have second: "\<exists>r. lookup_row (app_db (snd (post_api_tweet env_ok example_body started_app))) 1
          = Some r \<and> row_status r = ascii ''failed''"
    by blast
  have built: "new_TweetResponse env_ok True (Some (ascii ''123456789'')) msg_publish_ok
       (Some (ascii ''2024-01-15T10:30:00Z''))
     = Inr \<lparr>resp_success = True, resp_tweet_id = Some (ascii ''123456789''),
            resp_message = msg_publish_ok, resp_created_at = Some 1705314600\<rparr>"
    by (simp add: new_TweetResponse_def env_ok_def)
  from publish_status [OF parse_example, of env_ok example_app, unfolded req] encodable_hello
  obtain log_id' a1' res' a2' r' where
    g: "db_log_tweet env_ok (ascii ''hello'') (ascii ''processing'') example_app = (Inr log_id', a1')"
      "adapter_call env_ok example_request a1' = (res', a2')"
      "lookup_row (app_db (snd (post_api_tweet env_ok example_body example_app))) log_id' = Some r'"
      "(\<exists>result response. res' = Inr result
             \<and> new_TweetResponse env_ok True (Some (res_tweet_id result)) msg_publish_ok
                  (res_created_at result) = Inr response)
           \<longrightarrow> row_status r' = ascii ''success''"
    by blast
  from g(1) log_example [of env_ok] req have id': "log_id' = 1"
    and a1': "a1' = example_app\<lparr>app_db := \<lparr>rows = [\<lparr>row_id = 1, row_tweet_id = None,
          row_text = ascii ''hello'', row_status = ascii ''processing'', row_retry_count = 0,
          row_error_message = None, row_created_at = now_at env_ok 0,
          row_updated_at = now_at env_ok 0\<rparr>], seq = 1\<rparr>,
        app_trace := [EvLogInsert 1 (ascii ''processing'')]\<rparr>"
    by simp_all
  from g(2) a1' adapter_ok_example
  have "res' = Inr \<lparr>res_tweet_id = ascii ''123456789'', res_text = ascii ''hello'',
           res_created_at = Some (ascii ''2024-01-15T10:30:00Z''),
           res_user_id = ascii ''user123'', res_user_name = ascii ''Test User''\<rparr>"
    by simp
  with built g(4) have "row_status r' = ascii ''success''" by simp
  with g(3) id'
  have third: "\<exists>r. lookup_row (app_db (snd (post_api_tweet env_ok example_body example_app))) 1
          = Some r \<and> row_status r = ascii ''success''"
    by blast
  from first second third show ?thesis by blast
qed

subsection \<open>The order of the steps\<close>

text \<open>
  C5, as stated, fails on a body that passes validation with a text the store cannot
  encode: the insertion raises, and the response is returned with no row inserted, no
  adapter call made and no final status written; the only event of the request is the
  response.
\<close>

theorem response_without_row_counterexample:
  "parse_TweetRequest surrogate_body
     = Inr \<lparr>req_text = [55296], req_media = None, req_reply_to = None\<rparr>
   \<and> post_api_tweet env_ok surrogate_body started_app
      = (ErrorResponse 500
           \<lparr>err_success = False, err_error_code = ascii ''UNEXPECTED_ERROR'',
            err_message = msg_unexpected_error, err_details = Some msg_surrogates,
            err_timestamp = 4\<rparr>,
         started_app\<lparr>app_trace := [EvAuthenticate, EvPathExists, EvLoadCookies, EvGetUser,
                                    EvResponse 500]\<rparr>)"
  using post_api_tweet_unlogged [OF parse_surrogate, of env_ok started_app]
  by (simp add: parse_surrogate surrogate_not_encodable started_app_fields
      format_error_response_def env_ok_def)

text \<open>
  C5, amended: input validation comes first, and a body that fails it is answered 422
  at once. Then the log row is inserted with status \<open>processing\<close>; when the insertion
  raises, the request is answered 500 at once, with no row, no adapter call and no
  status written. Otherwise the events of the request come in this order: the
  insertion; the events of the adapter call, which runs in a state whose store holds
  that row; one or two updates of that row, the last of which writes the status the
  row ends with; the response.
\<close>

theorem publish_order:
  "(\<forall>e. parse_TweetRequest b = Inl e
       \<longrightarrow> app_trace (snd (post_api_tweet E b a)) = app_trace a @ [EvResponse 422])
   \<and> (\<forall>td. parse_TweetRequest b = Inr td \<and> \<not> encodable (req_text td)
       \<longrightarrow> snd (post_api_tweet E b a) = a\<lparr>app_trace := app_trace a @ [EvResponse 500]\<rparr>
           \<and> status_code (fst (post_api_tweet E b a)) = 500)
   \<and> (\<forall>td. parse_TweetRequest b = Inr td \<and> encodable (req_text td) \<longrightarrow>
        (\<exists>log_id a1 res a2 adapter_evs updates r r1.
           db_log_tweet E (req_text td) (ascii ''processing'') a = (Inr log_id, a1)
           \<and> lookup_row (app_db a1) log_id = Some r1 \<and> row_status r1 = ascii ''processing''
           \<and> adapter_call E td a1 = (res, a2)
           \<and> app_trace a2 = app_trace a1 @ adapter_evs
           \<and> list_all is_adapter_event adapter_evs
           \<and> app_trace (snd (post_api_tweet E b a))
               = app_trace a @ [EvLogInsert log_id (ascii ''processing'')] @ adapter_evs @ updates
                   @ [EvResponse (status_code (fst (post_api_tweet E b a)))]
           \<and> updates \<in> {[EvLogUpdate log_id (Some (ascii ''success''))],
                          [EvLogUpdate log_id (Some (ascii ''success'')),
                           EvLogUpdate log_id (Some (ascii ''failed''))],
                          [EvLogUpdate log_id (Some (ascii ''failed'')),
                           EvLogUpdate log_id (Some (ascii ''failed''))]}
           \<and> lookup_row (app_db (snd (post_api_tweet E b a))) log_id = Some r
           \<and> last updates = EvLogUpdate log_id (Some (row_status r))))"
proof (intro conjI allI impI)
  fix e assume "parse_TweetRequest b = Inl e"
  then show "app_trace (snd (post_api_tweet E b a)) = app_trace a @ [EvResponse 422]"
    by (simp add: post_api_tweet_def respond_def)
next
  fix td assume "parse_TweetRequest b = Inr td \<and> \<not> encodable (req_text td)"
  then show "snd (post_api_tweet E b a) = a\<lparr>app_trace := app_trace a @ [EvResponse 500]\<rparr>"
    using post_api_tweet_unlogged [of b td E a] by simp
next
  fix td assume "parse_TweetRequest b = Inr td \<and> \<not> encodable (req_text td)"
  then show "status_code (fst (post_api_tweet E b a)) = 500"
    using post_api_tweet_unlogged [of b td E a] by simp
next
  fix td assume hyp: "parse_TweetRequest b = Inr td \<and> encodable (req_text td)"
  then have parse: "parse_TweetRequest b = Inr td" and enc: "encodable (req_text td)" by simp_all
  from db_log_tweet_returns [OF enc, of E a] obtain log_id a1 where
    log: "db_log_tweet E (req_text td) (ascii ''processing'') a = (Inr log_id, a1)" by blast
  obtain res a2 where call: "adapter_call E td a1 = (res, a2)" by fastforce
  from db_log_tweet_props [OF log] obtain r1 where
    a1: "app_trace a1 = app_trace a @ [EvLogInsert log_id (ascii ''processing'')]"
      "lookup_row (app_db a1) log_id = Some r1" "row_status r1 = ascii ''processing''"
    by auto
  from adapter_call_events [OF call] obtain adapter_evs where
    ev: "app_trace a2 = app_trace a1 @ adapter_evs" "list_all is_adapter_event adapter_evs"
    by blast
  from publish_outcome [OF log call] obtain out a' updates r where
    o: "api_create_tweet E td a = (out, a')" "app_trace a' = app_trace a2 @ updates"
      "updates \<in> {[EvLogUpdate log_id (Some (ascii ''success''))],
                     [EvLogUpdate log_id (Some (ascii ''success'')),
                      EvLogUpdate log_id (Some (ascii ''failed''))],
                     [EvLogUpdate log_id (Some (ascii ''failed'')),
                      EvLogUpdate log_id (Some (ascii ''failed''))]}"
      "lookup_row (app_db a') log_id = Some r"
      "last updates = EvLogUpdate log_id (Some (row_status r))"
      "(\<exists>code body. out = Inl (HTTPException code body)) = (row_status r = ascii ''failed'')"
      "(\<exists>response. out = Inr response) = (row_status r = ascii ''success'')"
    by blast
  have "row_status r = ascii ''success'' \<or> row_status r = ascii ''failed''"
    using o(3,5) by auto
  then have shape: "(\<exists>code body. out = Inl (HTTPException code body)) \<or> (\<exists>response. out = Inr response)"
    using o(6,7) by blast
  note post = post_api_tweet_result [OF parse o(1) shape]
  from post(1,2) o a1 ev log call
  show "\<exists>log_id a1 res a2 adapter_evs updates r r1.
           db_log_tweet E (req_text td) (ascii ''processing'') a = (Inr log_id, a1)
           \<and> lookup_row (app_db a1) log_id = Some r1 \<and> row_status r1 = ascii ''processing''
           \<and> adapter_call E td a1 = (res, a2)
           \<and> app_trace a2 = app_trace a1 @ adapter_evs
           \<and> list_all is_adapter_event adapter_evs
           \<and> app_trace (snd (post_api_tweet E b a))
               = app_trace a @ [EvLogInsert log_id (ascii ''processing'')] @ adapter_evs @ updates
                   @ [EvResponse (status_code (fst (post_api_tweet E b a)))]
           \<and> updates \<in> {[EvLogUpdate log_id (Some (ascii ''success''))],
                          [EvLogUpdate log_id (Some (ascii ''success'')),
                           EvLogUpdate log_id (Some (ascii ''failed''))],
                          [EvLogUpdate log_id (Some (ascii ''failed'')),
                           EvLogUpdate log_id (Some (ascii ''failed''))]}
           \<and> lookup_row (app_db (snd (post_api_tweet E b a))) log_id = Some r
           \<and> last updates = EvLogUpdate log_id (Some (row_status r))"
    apply -
    apply (rule exI [of _ log_id], rule exI [of _ a1], rule exI [of _ res], rule exI [of _ a2])
    apply (rule exI [of _ adapter_evs], rule exI [of _ updates], rule exI [of _ r])
    apply (rule exI [of _ r1])
    apply simp
    done
qed

theorem publish_order_witness:
  "app_trace (snd (post_api_tweet env_ok
       \<lparr>body_text = Some (JString []), body_media = None, body_reply_to = None\<rparr> started_app))
     = app_trace started_app @ [EvResponse 422]
   \<and> snd (post_api_tweet env_ok surrogate_body started_app)
     = started_app\<lparr>app_trace := app_trace started_app @ [EvResponse 500]\<rparr>
   \<and> (\<exists>log_id adapter_evs updates r.
         list_all is_adapter_event adapter_evs
         \<and> app_trace (snd (post_api_tweet env_ok example_body started_app))
             = app_trace started_app @ [EvLogInsert log_id (ascii ''processing'')] @ adapter_evs
                 @ updates
                 @ [EvResponse (status_code (fst (post_api_tweet env_ok example_body started_app)))]
         \<and> lookup_row (app_db (snd (post_api_tweet env_ok example_body started_app))) log_id = Some r
         \<and> last updates = EvLogUpdate log_id (Some (row_status r)))"
proof -
  have bad: "parse_TweetRequest
       \<lparr>body_text = Some (JString []), body_media = None, body_reply_to = None\<rparr>
      = Inl (ValidationError (ascii ''ensure this value has at least 1 characters''))"
    by (simp add: parse_TweetRequest_def text_field_def)
  from publish_order [of "\<lparr>body_text = Some (JString []), body_media = None,
      body_reply_to = None\<rparr>" env_ok started_app] bad
  have first: "app_trace (snd (post_api_tweet env_ok
       \<lparr>body_text = Some (JString []), body_media = None, body_reply_to = None\<rparr> started_app))
     = app_trace started_app @ [EvResponse 422]"
    by simp
  from publish_order [of surrogate_body env_ok started_app] parse_surrogate surrogate_not_encodable
  have second: "snd (post_api_tweet env_ok surrogate_body started_app)
     = started_app\<lparr>app_trace := app_trace started_app @ [EvResponse 500]\<rparr>"
    by simp
  have req: "req_text example_request = ascii ''hello''" by (simp add: example_request_def)
  from publish_order [of example_body env_ok started_app] parse_example encodable_hello req
  have third: "\<exists>log_id adapter_evs updates r.
         list_all is_adapter_event adapter_evs
         \<and> app_trace (snd (post_api_tweet env_ok example_body started_app))
             = app_trace started_app @ [EvLogInsert log_id (ascii ''processing'')] @ adapter_evs
                 @ updates
                 @ [EvResponse (status_code (fst (post_api_tweet env_ok example_body started_app)))]
         \<and> lookup_row (app_db (snd (post_api_tweet env_ok example_body started_app))) log_id = Some r
         \<and> last updates = EvLogUpdate log_id (Some (row_status r))"
    by simp blast
  from first second third show ?thesis by blast
qed

subsection \<open>A number as text\<close>

lemma parse_number:
  "parse_TweetRequest number_body
     = Inr \<lparr>req_text = ascii ''123'', req_media = None, req_reply_to = None\<rparr>"
  by (simp add: number_body_def parse_TweetRequest_def text_field_def str_int_123)
     (simp add: ascii_def)

lemma encodable_123: "encodable (ascii ''123'')"
  by (simp add: encodable_def ascii_def)

text \<open>
  C6, as stated, fails on the body whose text is the number 123: the text field is
  not a string, the model converts it to the string of its digits, validation passes,
  and the endpoint runs: it inserts a row with that text and goes on to the adapter
  call (which, the service variable being unset, fails: the answer is 500, not 422).
\<close>

theorem number_text_accepted_counterexample:
  "body_text number_body = Some (JInt 123)
   \<and> parse_TweetRequest number_body
      = Inr \<lparr>req_text = ascii ''123'', req_media = None, req_reply_to = None\<rparr>
   \<and> status_code (fst (post_api_tweet env_ok number_body started_app)) = 500
   \<and> map_option row_text
        (lookup_row (app_db (snd (post_api_tweet env_ok number_body started_app))) 1)
       = Some (ascii ''123'')"
proof -
  let ?td = "\<lparr>req_text = ascii ''123'', req_media = None, req_reply_to = None\<rparr>"
  let ?a1 = "started_app\<lparr>app_db := \<lparr>rows = [\<lparr>row_id = 1, row_tweet_id = None,
          row_text = ascii ''123'', row_status = ascii ''processing'', row_retry_count = 0,
          row_error_message = None, row_created_at = 4, row_updated_at = 4\<rparr>], seq = 1\<rparr>,
        app_trace := [EvAuthenticate, EvPathExists, EvLoadCookies, EvGetUser,
                      EvLogInsert 1 (ascii ''processing'')]\<rparr>"
  have log: "db_log_tweet env_ok (req_text ?td) (ascii ''processing'') started_app = (Inr 1, ?a1)"
    using log_started [OF encodable_123] by simp
  have call: "adapter_call env_ok ?td ?a1 = (Inl (RuntimeError msg_not_initialised), ?a1)"
    by (rule unset_service_adapter_fails) (simp add: started_app_fields)
  note run = api_create_tweet_failed [OF log call]
  show ?thesis
    by (simp add: number_body_def parse_number [unfolded number_body_def] post_api_tweet_def run
        publish_failed_def Let_def respond_def db_update_tweet_log_def update_tweet_log_rows
        update_items_row lookup_row_def)
qed

end
